theory Spec2Isabelle
  imports Main "HOL-Library.AList"
begin

section \<open>JavaScript values used by the passkey backend\<close>

text \<open>
  Strings are byte lists. Timestamps are the milliseconds since the epoch that
  \<^verbatim>\<open>new Date()\<close> and \<^verbatim>\<open>Date.now()\<close> read; an ISO string written by
  \<^verbatim>\<open>toISOString()\<close> and parsed back by \<^verbatim>\<open>new Date(s)\<close> is the same number.
  Every operation below takes the clock reading \<open>now\<close> of the request it serves.
\<close>

type_synonym timestamp = nat

text \<open>\<^verbatim>\<open>String.prototype.toLowerCase\<close>, on the ASCII letters.\<close>

definition toLowerChar :: "char \<Rightarrow> char" where
  "toLowerChar c =
     (case map_of (zip ''ABCDEFGHIJKLMNOPQRSTUVWXYZ'' ''abcdefghijklmnopqrstuvwxyz'') c of
        Some l \<Rightarrow> l
      | None \<Rightarrow> c)"

definition toLowerCase :: "string \<Rightarrow> string" where
  "toLowerCase s = map toLowerChar s"

text \<open>\<^verbatim>\<open>String.prototype.startsWith\<close>.\<close>

definition startsWith :: "string \<Rightarrow> string \<Rightarrow> bool" where
  "startsWith s p = (take (length p) s = p)"

text \<open>
  Truthiness of an optional string: \<^verbatim>\<open>null\<close>, \<^verbatim>\<open>undefined\<close> and the empty string
  are falsy.
\<close>

fun truthy :: "string option \<Rightarrow> bool" where
  "truthy None = False"
| "truthy (Some s) = (s \<noteq> [])"

text \<open>\<^verbatim>\<open>a || b\<close> on optional strings.\<close>

definition or_else :: "string option \<Rightarrow> string option \<Rightarrow> string option" where
  "or_else a b = (if truthy a then a else b)"

section \<open>Data model\<close>

datatype ceremony = Registration | Authentication

text \<open>The object handed to \<^verbatim>\<open>saveChallenge\<close>, and the session stored from it.\<close>

record challenge_data =
  cd_challenge :: string
  cd_userId :: "string option"
  cd_username :: "string option"
  cd_displayName :: "string option"
  cd_platform :: string
  cd_type :: ceremony

record session =
  s_data :: challenge_data
  s_createdAt :: timestamp
  s_expiresAt :: timestamp

text \<open>
  The object handed to \<^verbatim>\<open>savePasskey\<close>, and the passkey stored from it:
  \<^verbatim>\<open>{...passkeyData, id, createdAt, lastUsed}\<close>.
\<close>

record passkey_data =
  pd_userId :: string
  pd_username :: "string option"
  pd_displayName :: "string option"
  pd_credentialID :: string
  pd_credentialPublicKey :: string
  pd_counter :: nat
  pd_credentialDeviceType :: string
  pd_credentialBackedUp :: bool
  pd_transports :: "string list option"
  pd_aaguid :: string
  pd_platform :: string
  pd_registeredFrom :: string

record passkey =
  pk_data :: passkey_data
  pk_id :: string
  pk_createdAt :: timestamp
  pk_lastUsed :: timestamp

record user_data =
  ud_username :: "string option"
  ud_displayName :: "string option"

record user =
  u_data :: user_data
  u_id :: string
  u_createdAt :: timestamp
  u_updatedAt :: timestamp

section \<open>The key-value store behind \<^verbatim>\<open>kv-storage\<close>\<close>

text \<open>
  \<^verbatim>\<open>@vercel/kv\<close> is a key-value store: \<^verbatim>\<open>get\<close>, \<^verbatim>\<open>set\<close>, \<^verbatim>\<open>del\<close>, \<^verbatim>\<open>keys\<close>.
  The three key prefixes \<^verbatim>\<open>passkeys:\<close>, \<^verbatim>\<open>users:\<close> and \<^verbatim>\<open>sessions:\<close> give three
  disjoint namespaces, one association list each; the order of a list stands for the
  order in which \<^verbatim>\<open>keys\<close> enumerates. A session entry carries the deadline that
  \<^verbatim>\<open>set(..., {ex: 5 * 60})\<close> gives it: once the clock has passed the deadline the
  store no longer returns the entry.
\<close>

definition kv_keys :: "(string \<times> 'v) list \<Rightarrow> string list" where
  "kv_keys al = remdups (map fst al)"

definition kv_get :: "(string \<times> 'v) list \<Rightarrow> string \<Rightarrow> 'v option" where
  "kv_get al k = map_of al k"

definition kv_set :: "string \<Rightarrow> 'v \<Rightarrow> (string \<times> 'v) list \<Rightarrow> (string \<times> 'v) list" where
  "kv_set k v al = AList.update k v al"

definition kv_del :: "string \<Rightarrow> (string \<times> 'v) list \<Rightarrow> (string \<times> 'v) list" where
  "kv_del k al = AList.delete k al"

definition kv_get_ex :: "timestamp \<Rightarrow> (string \<times> ('v \<times> timestamp)) list \<Rightarrow> string \<Rightarrow> 'v option" where
  "kv_get_ex now al k =
     (case map_of al k of
        None \<Rightarrow> None
      | Some (v, deadline) \<Rightarrow> if deadline < now then None else Some v)"

definition kv_set_ex ::
  "timestamp \<Rightarrow> string \<Rightarrow> 'v \<Rightarrow> nat \<Rightarrow> (string \<times> ('v \<times> timestamp)) list
     \<Rightarrow> (string \<times> ('v \<times> timestamp)) list" where
  "kv_set_ex now k v ex al = AList.update k (v, now + ex * 1000) al"

record kv_state =
  kv_passkeys :: "(string \<times> passkey) list"
  kv_users :: "(string \<times> user) list"
  kv_sessions :: "(string \<times> (session \<times> timestamp)) list"

subsection \<open>\<^verbatim>\<open>KVStorage\<close>\<close>

definition KV_getPasskeys :: "string option \<Rightarrow> kv_state \<Rightarrow> passkey list" where
  "KV_getPasskeys userId st =
     filter (\<lambda>item. if truthy userId then Some (pd_userId (pk_data item)) = userId else True)
       (List.map_filter (kv_get (kv_passkeys st)) (kv_keys (kv_passkeys st)))"

definition KV_getPasskeyById :: "string \<Rightarrow> kv_state \<Rightarrow> passkey option" where
  "KV_getPasskeyById passkeyId st = kv_get (kv_passkeys st) passkeyId"

definition KV_savePasskey :: "timestamp \<Rightarrow> string \<Rightarrow> passkey_data \<Rightarrow> kv_state \<Rightarrow> kv_state" where
  "KV_savePasskey now passkeyId passkeyData st =
     st\<lparr>kv_passkeys :=
          kv_set passkeyId
            \<lparr>pk_data = passkeyData, pk_id = passkeyId, pk_createdAt = now, pk_lastUsed = now\<rparr>
            (kv_passkeys st)\<rparr>"

definition KV_updatePasskeyLastUsed :: "timestamp \<Rightarrow> string \<Rightarrow> kv_state \<Rightarrow> bool \<times> kv_state" where
  "KV_updatePasskeyLastUsed now passkeyId st =
     (case KV_getPasskeyById passkeyId st of
        None \<Rightarrow> (False, st)
      | Some p \<Rightarrow>
          (True, st\<lparr>kv_passkeys := kv_set passkeyId (p\<lparr>pk_lastUsed := now\<rparr>) (kv_passkeys st)\<rparr>))"

definition KV_getUser :: "string \<Rightarrow> kv_state \<Rightarrow> user option" where
  "KV_getUser userId st = kv_get (kv_users st) userId"

definition KV_saveUser :: "timestamp \<Rightarrow> string \<Rightarrow> user_data \<Rightarrow> kv_state \<Rightarrow> kv_state" where
  "KV_saveUser now userId userData st =
     (let existing = KV_getUser userId st;
          newData = \<lparr>u_data = userData, u_id = userId,
                     u_createdAt = (case existing of Some e \<Rightarrow> u_createdAt e | None \<Rightarrow> now),
                     u_updatedAt = now\<rparr>
      in st\<lparr>kv_users := kv_set userId newData (kv_users st)\<rparr>)"

definition KV_saveChallenge :: "timestamp \<Rightarrow> string \<Rightarrow> challenge_data \<Rightarrow> kv_state \<Rightarrow> kv_state" where
  "KV_saveChallenge now sessionId challengeData st =
     (let session = \<lparr>s_data = challengeData, s_createdAt = now,
                     s_expiresAt = now + 5 * 60 * 1000\<rparr>
      in st\<lparr>kv_sessions := kv_set_ex now sessionId session (5 * 60) (kv_sessions st)\<rparr>)"

definition KV_getChallenge :: "timestamp \<Rightarrow> string \<Rightarrow> kv_state \<Rightarrow> session option" where
  "KV_getChallenge now sessionId st = kv_get_ex now (kv_sessions st) sessionId"

definition KV_deleteChallenge :: "string \<Rightarrow> kv_state \<Rightarrow> kv_state" where
  "KV_deleteChallenge sessionId st = st\<lparr>kv_sessions := kv_del sessionId (kv_sessions st)\<rparr>"

definition KV_cleanupExpiredSessions :: "kv_state \<Rightarrow> bool \<times> kv_state" where
  "KV_cleanupExpiredSessions st = (False, st)"

section \<open>\<^verbatim>\<open>WebAuthnService\<close>: configuration and platform policy\<close>

record webauthn_service =
  rpName :: string
  rpID :: string
  svc_origin :: string
  svc_timeout :: nat
  allowedOrigins :: "string list"

text \<open>The values the constructor sets, before any configuration is loaded.\<close>

definition defaultService :: webauthn_service where
  "defaultService =
     \<lparr>rpName = ''Passkey Backend API'',
      rpID = ''localhost'',
      svc_origin = ''http://localhost:3000'',
      svc_timeout = 60000,
      allowedOrigins =
        [''http://localhost:3000'',
         ''https://localhost:3000'',
         ''android:apk-key-hash:REPLACE_WITH_YOUR_ANDROID_APP_SIGNATURE_HASH'',
         ''ios:bundle-id:REPLACE_WITH_YOUR_IOS_BUNDLE_ID'']\<rparr>"

definition getTransportsForPlatform :: "string list option \<Rightarrow> string \<Rightarrow> string list" where
  "getTransportsForPlatform originalTransports platform =
     (let p = toLowerCase platform in
      if p = ''android'' then
        (case originalTransports of Some ts \<Rightarrow> ts
         | None \<Rightarrow> [''internal'', ''hybrid'', ''nfc'', ''ble'', ''usb''])
      else if p = ''ios'' then
        (case originalTransports of Some ts \<Rightarrow> ts | None \<Rightarrow> [''internal'', ''hybrid''])
      else
        (case originalTransports of Some ts \<Rightarrow> ts
         | None \<Rightarrow> [''internal'', ''hybrid'', ''usb'', ''nfc'', ''ble'']))"

definition isValidOrigin :: "webauthn_service \<Rightarrow> string \<Rightarrow> string \<Rightarrow> bool" where
  "isValidOrigin svc org platform =
     (if org \<in> set (allowedOrigins svc) then True
      else
        (let p = toLowerCase platform in
         if p = ''android'' then startsWith org ''android:apk-key-hash:''
         else if p = ''ios'' then startsWith org ''ios:bundle-id:''
         else if p = ''web'' then startsWith org ''http://'' \<or> startsWith org ''https://''
         else False))"

text \<open>
  The origin check that both completion operations run inline:
  \<^verbatim>\<open>let expectedOrigin = origin || this.origin\<close>, then for a platform other than
  \<^verbatim>\<open>'web'\<close> with an origin supplied, \<open>isValidOrigin\<close> or the error.
\<close>

fun str_of :: "string option \<Rightarrow> string" where
  "str_of None = []"
| "str_of (Some s) = s"

datatype error =
    SessionExpiredOrInvalid ceremony
  | UserMismatch
  | InvalidOrigin string string
  | RegistrationVerificationFailed
  | CredentialNotFound
  | AuthenticationVerificationFailed
  | PrimitiveError string

text \<open>
  The constructors stand for the messages thrown:
  \<^verbatim>\<open>'Invalid or expired registration session'\<close> and
  \<^verbatim>\<open>'Invalid or expired authentication session'\<close> (\<open>SessionExpiredOrInvalid\<close>),
  \<^verbatim>\<open>'User ID mismatch'\<close>, \<^verbatim>\<open>'Invalid origin for <platform> platform: <origin>'\<close>,
  \<^verbatim>\<open>'Registration verification failed'\<close>, \<^verbatim>\<open>'Passkey not found'\<close>,
  \<^verbatim>\<open>'Authentication verification failed'\<close>, and whatever the verification primitive
  itself throws.
\<close>

definition resolveExpectedOrigin :: "webauthn_service \<Rightarrow> string option \<Rightarrow> string \<Rightarrow> error + string" where
  "resolveExpectedOrigin svc org platform =
     (let expectedOrigin = (if truthy org then str_of org else svc_origin svc) in
      if platform \<noteq> ''web'' \<and> truthy org then
        (if \<not> isValidOrigin svc (str_of org) platform
         then Inl (InvalidOrigin platform (str_of org))
         else Inr (str_of org))
      else Inr expectedOrigin)"

record authenticator_selection =
  residentKey :: string
  userVerification :: string
  authenticatorAttachment :: "string option"
  requireResidentKey :: bool

definition getAuthenticatorSelection :: "string \<Rightarrow> authenticator_selection" where
  "getAuthenticatorSelection platform =
     (let p = toLowerCase platform in
      if p = ''android'' then
        \<lparr>residentKey = ''preferred'', userVerification = ''preferred'',
         authenticatorAttachment = Some ''platform'', requireResidentKey = False\<rparr>
      else if p = ''ios'' then
        \<lparr>residentKey = ''preferred'', userVerification = ''preferred'',
         authenticatorAttachment = Some ''platform'', requireResidentKey = False\<rparr>
      else
        \<lparr>residentKey = ''preferred'', userVerification = ''preferred'',
         authenticatorAttachment = None, requireResidentKey = False\<rparr>)"

section \<open>The verification primitive\<close>

text \<open>
  \<^verbatim>\<open>@simplewebauthn/server\<close> is outside the repository. Its two verification
  functions are parameters of the model: each maps the request object the service
  builds to a result that is verified, not verified, or an exception. Its two option
  generators return their arguments with a fresh challenge; the challenge is an
  argument of the model, as are the identifiers \<^verbatim>\<open>uuidv4()\<close> draws.
\<close>

datatype 'a verification = Throws string | NotVerified | Verified 'a

text \<open>
  The client's credential response: \<open>c_rawId\<close> is the byte string that
  \<^verbatim>\<open>Buffer.from(credential.id, 'base64url')\<close> yields, \<open>c_transports\<close> is
  \<^verbatim>\<open>credential.response.transports\<close>.
\<close>

record credential =
  c_rawId :: string
  c_transports :: "string list option"

record registration_info =
  ri_credentialID :: string
  ri_credentialPublicKey :: string
  ri_counter :: nat
  ri_credentialDeviceType :: string
  ri_credentialBackedUp :: bool
  ri_aaguid :: string

record registration_verify_request =
  rv_response :: credential
  rv_expectedChallenge :: string
  rv_expectedOrigin :: string
  rv_expectedRPID :: string

record authenticator =
  au_credentialID :: string
  au_credentialPublicKey :: string
  au_counter :: nat
  au_transports :: "string list option"

record authentication_verify_request =
  av_response :: credential
  av_expectedChallenge :: string
  av_expectedOrigin :: string
  av_expectedRPID :: string
  av_authenticator :: authenticator

record credential_descriptor =
  cdesc_id :: string
  cdesc_type :: string
  cdesc_transports :: "string list"

record registration_options =
  ro_challenge :: string
  ro_rpName :: string
  ro_rpID :: string
  ro_userID :: string
  ro_userName :: string
  ro_userDisplayName :: string
  ro_timeout :: nat
  ro_attestationType :: string
  ro_excludeCredentials :: "credential_descriptor list"
  ro_authenticatorSelection :: authenticator_selection
  ro_supportedAlgorithmIDs :: "int list"

record authentication_options =
  ao_challenge :: string
  ao_timeout :: nat
  ao_allowCredentials :: "credential_descriptor list option"
  ao_userVerification :: string
  ao_rpID :: string

section \<open>\<^verbatim>\<open>WebAuthnService\<close>: the four ceremony operations\<close>

definition descriptor :: "string \<Rightarrow> passkey \<Rightarrow> credential_descriptor" where
  "descriptor platform passkey =
     \<lparr>cdesc_id = pd_credentialID (pk_data passkey),
      cdesc_type = ''public-key'',
      cdesc_transports = getTransportsForPlatform (pd_transports (pk_data passkey)) platform\<rparr>"

definition generateRegistrationOptions ::
  "webauthn_service \<Rightarrow> string \<Rightarrow> string \<Rightarrow> timestamp
     \<Rightarrow> string \<Rightarrow> string \<Rightarrow> string option \<Rightarrow> string \<Rightarrow> kv_state
     \<Rightarrow> (registration_options \<times> string) \<times> kv_state" where
  "generateRegistrationOptions svc challenge sessionId now userId username displayName platform st =
     (let existingPasskeys = KV_getPasskeys (Some userId) st;
          excludeCredentials = map (descriptor platform) existingPasskeys;
          authenticatorSelection = getAuthenticatorSelection platform;
          options =
            \<lparr>ro_challenge = challenge,
             ro_rpName = rpName svc,
             ro_rpID = rpID svc,
             ro_userID = userId,
             ro_userName = username,
             ro_userDisplayName = (if truthy displayName then str_of displayName else username),
             ro_timeout = svc_timeout svc,
             ro_attestationType = ''none'',
             ro_excludeCredentials = excludeCredentials,
             ro_authenticatorSelection = authenticatorSelection,
             ro_supportedAlgorithmIDs = [-7, -257, -35, -36, -37, -38, -39]\<rparr>;
          st' = KV_saveChallenge now sessionId
                  \<lparr>cd_challenge = ro_challenge options,
                   cd_userId = Some userId,
                   cd_username = Some username,
                   cd_displayName = displayName,
                   cd_platform = platform,
                   cd_type = Registration\<rparr> st
      in ((options, sessionId), st'))"

record registration_result =
  rr_verified :: bool
  rr_passkeyId :: string
  rr_passkey :: passkey_data

definition verifyRegistration ::
  "webauthn_service \<Rightarrow> (registration_verify_request \<Rightarrow> registration_info verification)
     \<Rightarrow> string \<Rightarrow> timestamp
     \<Rightarrow> string \<Rightarrow> credential \<Rightarrow> string \<Rightarrow> string option \<Rightarrow> string \<Rightarrow> kv_state
     \<Rightarrow> (error + registration_result) \<times> kv_state" where
  "verifyRegistration svc verifyRegistrationResponse passkeyId now
       sessionId credential userId org platform st =
     (case KV_getChallenge now sessionId st of
        None \<Rightarrow> (Inl (SessionExpiredOrInvalid Registration), st)
      | Some session \<Rightarrow>
          (let challengeData = s_data session in
           if cd_type challengeData \<noteq> Registration
           then (Inl (SessionExpiredOrInvalid Registration), st)
           else if cd_userId challengeData \<noteq> Some userId
           then (Inl UserMismatch, st)
           else
             (case resolveExpectedOrigin svc org platform of
                Inl e \<Rightarrow> (Inl e, st)
              | Inr expectedOrigin \<Rightarrow>
                  (case verifyRegistrationResponse
                          \<lparr>rv_response = credential,
                           rv_expectedChallenge = cd_challenge challengeData,
                           rv_expectedOrigin = expectedOrigin,
                           rv_expectedRPID = rpID svc\<rparr> of
                     Throws m \<Rightarrow> (Inl (PrimitiveError m), st)
                   | NotVerified \<Rightarrow> (Inl RegistrationVerificationFailed, st)
                   | Verified registrationInfo \<Rightarrow>
                       (let sessionPlatform =
                              (if cd_platform challengeData \<noteq> []
                               then cd_platform challengeData else platform);
                            passkeyData =
                              \<lparr>pd_userId = str_of (cd_userId challengeData),
                               pd_username = cd_username challengeData,
                               pd_displayName = cd_displayName challengeData,
                               pd_credentialID = ri_credentialID registrationInfo,
                               pd_credentialPublicKey = ri_credentialPublicKey registrationInfo,
                               pd_counter = ri_counter registrationInfo,
                               pd_credentialDeviceType = ri_credentialDeviceType registrationInfo,
                               pd_credentialBackedUp = ri_credentialBackedUp registrationInfo,
                               pd_transports =
                                 (case c_transports credential of
                                    Some ts \<Rightarrow> Some ts
                                  | None \<Rightarrow> Some (getTransportsForPlatform None sessionPlatform)),
                               pd_aaguid = ri_aaguid registrationInfo,
                               pd_platform = sessionPlatform,
                               pd_registeredFrom = expectedOrigin\<rparr>;
                            st1 = KV_savePasskey now passkeyId passkeyData st;
                            st2 = KV_saveUser now (str_of (cd_userId challengeData))
                                    \<lparr>ud_username = cd_username challengeData,
                                     ud_displayName = cd_displayName challengeData\<rparr> st1;
                            st3 = KV_deleteChallenge sessionId st2
                        in (Inr \<lparr>rr_verified = True, rr_passkeyId = passkeyId,
                                 rr_passkey = passkeyData\<rparr>, st3))))))"

definition generateAuthenticationOptions ::
  "webauthn_service \<Rightarrow> string \<Rightarrow> string \<Rightarrow> timestamp
     \<Rightarrow> string option \<Rightarrow> string \<Rightarrow> kv_state
     \<Rightarrow> (authentication_options \<times> string) \<times> kv_state" where
  "generateAuthenticationOptions svc challenge sessionId now userId platform st =
     (let allowCredentials =
            (if truthy userId
             then map (descriptor platform) (KV_getPasskeys userId st)
             else map (descriptor platform) (KV_getPasskeys None st));
          options =
            \<lparr>ao_challenge = challenge,
             ao_timeout = svc_timeout svc,
             ao_allowCredentials =
               (if length allowCredentials > 0 then Some allowCredentials else None),
             ao_userVerification = ''preferred'',
             ao_rpID = rpID svc\<rparr>;
          st' = KV_saveChallenge now sessionId
                  \<lparr>cd_challenge = ao_challenge options,
                   cd_userId = userId,
                   cd_username = None,
                   cd_displayName = None,
                   cd_platform = platform,
                   cd_type = Authentication\<rparr> st
      in ((options, sessionId), st'))"

record authentication_result =
  ar_verified :: bool
  ar_userId :: string
  ar_username :: "string option"
  ar_passkeyId :: string
  ar_passkey :: passkey

text \<open>
  \<open>verifyAuthentication\<close> awaits \<^verbatim>\<open>storage.getChallenge(sessionId)\<close> first;
  \<open>verifyAuthentication_afterGetChallenge\<close> is the rest of the function, run on the
  value that await delivered and on the store as it is when the function resumes.
\<close>

definition verifyAuthentication_afterGetChallenge ::
  "webauthn_service \<Rightarrow> (authentication_verify_request \<Rightarrow> nat verification) \<Rightarrow> timestamp
     \<Rightarrow> string \<Rightarrow> credential \<Rightarrow> string option \<Rightarrow> session option \<Rightarrow> kv_state
     \<Rightarrow> (error + authentication_result) \<times> kv_state" where
  "verifyAuthentication_afterGetChallenge svc verifyAuthenticationResponse now
       sessionId credential org fetched st =
     (case fetched of
        None \<Rightarrow> (Inl (SessionExpiredOrInvalid Authentication), st)
      | Some session \<Rightarrow>
          (let challengeData = s_data session in
           if cd_type challengeData \<noteq> Authentication
           then (Inl (SessionExpiredOrInvalid Authentication), st)
           else
             (case find (\<lambda>p. pd_credentialID (pk_data p) = c_rawId credential)
                        (KV_getPasskeys None st) of
                None \<Rightarrow> (Inl CredentialNotFound, st)
              | Some passkey \<Rightarrow>
                  (let platform =
                         (if cd_platform challengeData \<noteq> []
                          then cd_platform challengeData else ''web'')
                   in case resolveExpectedOrigin svc org platform of
                        Inl e \<Rightarrow> (Inl e, st)
                      | Inr expectedOrigin \<Rightarrow>
                          (case verifyAuthenticationResponse
                                  \<lparr>av_response = credential,
                                   av_expectedChallenge = cd_challenge challengeData,
                                   av_expectedOrigin = expectedOrigin,
                                   av_expectedRPID = rpID svc,
                                   av_authenticator =
                                     \<lparr>au_credentialID = pd_credentialID (pk_data passkey),
                                      au_credentialPublicKey =
                                        pd_credentialPublicKey (pk_data passkey),
                                      au_counter = pd_counter (pk_data passkey),
                                      au_transports = pd_transports (pk_data passkey)\<rparr>\<rparr> of
                             Throws m \<Rightarrow> (Inl (PrimitiveError m), st)
                           | NotVerified \<Rightarrow> (Inl AuthenticationVerificationFailed, st)
                           | Verified newCounter \<Rightarrow>
                               (let st1 = KV_savePasskey now (pk_id passkey)
                                            ((pk_data passkey)\<lparr>pd_counter := newCounter\<rparr>) st;
                                    st2 = snd (KV_updatePasskeyLastUsed now (pk_id passkey) st1);
                                    st3 = KV_deleteChallenge sessionId st2
                                in (Inr \<lparr>ar_verified = True,
                                         ar_userId = pd_userId (pk_data passkey),
                                         ar_username = pd_username (pk_data passkey),
                                         ar_passkeyId = pk_id passkey,
                                         ar_passkey = passkey\<rparr>, st3)))))))"

definition verifyAuthentication ::
  "webauthn_service \<Rightarrow> (authentication_verify_request \<Rightarrow> nat verification) \<Rightarrow> timestamp
     \<Rightarrow> string \<Rightarrow> credential \<Rightarrow> string option \<Rightarrow> kv_state
     \<Rightarrow> (error + authentication_result) \<times> kv_state" where
  "verifyAuthentication svc verifyAuthenticationResponse now sessionId credential org st =
     verifyAuthentication_afterGetChallenge svc verifyAuthenticationResponse now
       sessionId credential org (KV_getChallenge now sessionId st) st"

section \<open>\<^verbatim>\<open>BackendService\<close>\<close>

text \<open>
  The configuration file is parsed JSON; \<open>userCredentials\<close> is an object keyed by
  user id. A property read \<^verbatim>\<open>userCredentials[userId]\<close> finds the object's own
  entry, and otherwise a member that every object inherits from
  \<^verbatim>\<open>Object.prototype\<close>, which is truthy and has neither \<^verbatim>\<open>username\<close> nor
  \<^verbatim>\<open>password\<close>; only when neither exists is the read \<^verbatim>\<open>undefined\<close>.
  \<^verbatim>\<open>Object.keys\<close> lists the own entries only.
\<close>

record backend_credentials =
  bc_username :: string
  bc_password :: string

datatype credentials_lookup = Own backend_credentials | Inherited

definition objectPrototypeNames :: "string list" where
  "objectPrototypeNames =
     [''constructor'', ''__defineGetter__'', ''__defineSetter__'', ''hasOwnProperty'',
      ''__lookupGetter__'', ''__lookupSetter__'', ''isPrototypeOf'',
      ''propertyIsEnumerable'', ''toString'', ''valueOf'', ''__proto__'',
      ''toLocaleString'']"

definition js_property :: "(string \<times> backend_credentials) list \<Rightarrow> string \<Rightarrow> credentials_lookup option" where
  "js_property obj k =
     (case map_of obj k of
        Some c \<Rightarrow> Some (Own c)
      | None \<Rightarrow> if k \<in> set objectPrototypeNames then Some Inherited else None)"

record backend_config =
  userCredentials :: "(string \<times> backend_credentials) list"
  baseUrl :: string
  signinEndpoint :: string
  backendTimeout :: "nat option"

text \<open>
  \<open>bs_config\<close> is \<^verbatim>\<open>this.config\<close>; \<open>bs_configFile\<close> is what \<^verbatim>\<open>loadConfig\<close>
  would read, \<open>None\<close> when the file cannot be read or parsed. An exception of the
  service is the message of the \<^verbatim>\<open>Error\<close> thrown.
\<close>

record backend_service =
  bs_config :: "backend_config option"
  bs_configFile :: "backend_config option"

definition loadConfig :: "backend_service \<Rightarrow> string + backend_service" where
  "loadConfig bs =
     (case bs_configFile bs of
        Some c \<Rightarrow> Inr (bs\<lparr>bs_config := Some c\<rparr>)
      | None \<Rightarrow> Inl ''Backend service configuration not found'')"

definition ensureConfigLoaded :: "backend_service \<Rightarrow> string + backend_service" where
  "ensureConfigLoaded bs =
     (case bs_config bs of
        None \<Rightarrow> loadConfig bs
      | Some c \<Rightarrow> Inr bs)"

text \<open>
  The sign-in request posted with \<^verbatim>\<open>axios\<close>, and the ways the call can end: a
  response, an error carrying the remote response (with \<^verbatim>\<open>data?.message\<close>, status
  and data), an error with a request but no response, or any other error with its
  message. The remote system is the parameter \<open>post\<close>.
\<close>

record signin_request =
  sr_url :: string
  sr_username :: "string option"
  sr_password :: "string option"
  sr_timeout :: nat

datatype axios_outcome =
    Response string nat
  | ErrorResponse "string option" nat string
  | ErrorRequest
  | ErrorOther string

record backend_error =
  be_message :: string
  be_status :: nat
  be_data :: "string option"

datatype backend_result = BackendSuccess string nat | BackendFailure backend_error

definition authenticateUser ::
  "(signin_request \<Rightarrow> axios_outcome) \<Rightarrow> string \<Rightarrow> backend_service
     \<Rightarrow> (string + backend_result) \<times> backend_service" where
  "authenticateUser post userId bs0 =
     (case ensureConfigLoaded bs0 of
        Inl m \<Rightarrow> (Inl m, bs0)
      | Inr bs \<Rightarrow>
          (case bs_config bs of
             None \<Rightarrow> (Inl ''Backend service configuration not found'', bs)
           | Some config \<Rightarrow>
               (case js_property (userCredentials config) userId of
                  None \<Rightarrow> (Inl (''No credentials configured for user: '' @ userId), bs)
                | Some found \<Rightarrow>
                    (let signinUrl = baseUrl config @ signinEndpoint config;
                         request =
                           \<lparr>sr_url = signinUrl,
                            sr_username =
                              (case found of Own c \<Rightarrow> Some (bc_username c) | Inherited \<Rightarrow> None),
                            sr_password =
                              (case found of Own c \<Rightarrow> Some (bc_password c) | Inherited \<Rightarrow> None),
                            sr_timeout =
                              (case backendTimeout config of
                                 Some t \<Rightarrow> if t \<noteq> 0 then t else 30000
                               | None \<Rightarrow> 30000)\<rparr>
                     in case post request of
                          Response d s \<Rightarrow> (Inr (BackendSuccess d s), bs)
                        | ErrorResponse m s d \<Rightarrow>
                            (Inr (BackendFailure
                                    \<lparr>be_message =
                                       (if truthy m then str_of m else ''Authentication failed''),
                                     be_status = s, be_data = Some d\<rparr>), bs)
                        | ErrorRequest \<Rightarrow>
                            (Inr (BackendFailure
                                    \<lparr>be_message = ''Unable to connect to backend service'',
                                     be_status = 503, be_data = None\<rparr>), bs)
                        | ErrorOther m \<Rightarrow>
                            (Inr (BackendFailure
                                    \<lparr>be_message =
                                       (if m \<noteq> [] then m else ''Unknown error occurred''),
                                     be_status = 500, be_data = None\<rparr>), bs)))))"

definition getUserCredentials ::
  "string \<Rightarrow> backend_service \<Rightarrow> (string + credentials_lookup option) \<times> backend_service" where
  "getUserCredentials userId bs0 =
     (case ensureConfigLoaded bs0 of
        Inl m \<Rightarrow> (Inl m, bs0)
      | Inr bs \<Rightarrow>
          (case bs_config bs of
             None \<Rightarrow> (Inl ''Backend service configuration not found'', bs)
           | Some config \<Rightarrow> (Inr (js_property (userCredentials config) userId), bs)))"

text \<open>
  \<^verbatim>\<open>Object.keys\<close> lists the own keys that are array indices first, in ascending
  numeric order, and then the other keys in the order in which they were written. An
  array index is the decimal numeral, without leading zeros, of a number below
  4294967295.
\<close>

definition digitValue :: "char \<Rightarrow> nat option" where
  "digitValue c = map_of (zip ''0123456789'' [0, 1, 2, 3, 4, 5, 6, 7, 8, 9]) c"

definition arrayIndex :: "string \<Rightarrow> nat option" where
  "arrayIndex k =
     (case k of
        [] \<Rightarrow> None
      | c # cs \<Rightarrow>
          if c = CHR ''0'' \<and> cs \<noteq> [] then None
          else
            (case those (map digitValue k) of
               None \<Rightarrow> None
             | Some ds \<Rightarrow>
                 (let n = foldl (\<lambda>a d. 10 * a + d) 0 ds
                  in if n < 4294967295 then Some n else None)))"

definition objectKeys :: "(string \<times> 'v) list \<Rightarrow> string list" where
  "objectKeys obj =
     (let keys = map fst obj;
          indexed = List.map_filter (\<lambda>k. map_option (\<lambda>n. (n, k)) (arrayIndex k)) keys
      in map snd (sort_key fst indexed) @ filter (\<lambda>k. arrayIndex k = None) keys)"

definition getAvailableUsers ::
  "backend_service \<Rightarrow> (string + string list) \<times> backend_service" where
  "getAvailableUsers bs0 =
     (case ensureConfigLoaded bs0 of
        Inl m \<Rightarrow> (Inl m, bs0)
      | Inr bs \<Rightarrow>
          (case bs_config bs of
             None \<Rightarrow> (Inl ''Backend service configuration not found'', bs)
           | Some config \<Rightarrow> (Inr (objectKeys (userCredentials config)), bs)))"

section \<open>The route \<^verbatim>\<open>POST /login/complete\<close>\<close>

record login_body =
  lb_sessionId :: string
  lb_credential :: credential
  lb_origin :: "string option"
  lb_skipBackendAuth :: bool

record user_summary =
  us_userId :: string
  us_username :: "string option"
  us_passkeyId :: string

datatype error_field = ErrorObject backend_error | ErrorMessage string

text \<open>
  The \<^verbatim>\<open>backendAuthentication\<close> object of a response; a field the object literal
  does not set is \<open>None\<close>.
\<close>

record backend_authentication =
  ba_skipped :: "bool option"
  ba_success :: "bool option"
  ba_message :: string
  ba_data :: "string option"
  ba_status :: "nat option"
  ba_error :: "error_field option"
  ba_availableUsers :: "string list option"

definition backendAuthenticationMessage :: "string \<Rightarrow> backend_authentication" where
  "backendAuthenticationMessage m =
     \<lparr>ba_skipped = None, ba_success = None, ba_message = m, ba_data = None,
      ba_status = None, ba_error = None, ba_availableUsers = None\<rparr>"

record login_response =
  lr_success :: bool
  lr_message :: string
  lr_user :: user_summary
  lr_authenticatedAt :: timestamp
  lr_backendAuthentication :: "backend_authentication option"
  lr_warning :: "string option"

datatype http_response =
    Json login_response
  | Unauthorized string
  | Next error

text \<open>
  What the handler does once \<open>verifyAuthentication\<close> has returned \<open>result\<close>: the
  base response, then the delegation to the backend unless the request opts out.
\<close>

definition respondAuthenticated ::
  "(signin_request \<Rightarrow> axios_outcome) \<Rightarrow> timestamp \<Rightarrow> bool \<Rightarrow> authentication_result
     \<Rightarrow> backend_service \<Rightarrow> http_response \<times> backend_service" where
  "respondAuthenticated post now skipBackendAuth result bs =
     (if ar_verified result then
        (let authenticatedAt = now;
             baseResponse =
               \<lparr>lr_success = True,
                lr_message = ''Authentication successful'',
                lr_user = \<lparr>us_userId = ar_userId result, us_username = ar_username result,
                           us_passkeyId = ar_passkeyId result\<rparr>,
                lr_authenticatedAt = authenticatedAt,
                lr_backendAuthentication = None,
                lr_warning = None\<rparr>
         in if skipBackendAuth then
              (Json (baseResponse
                 \<lparr>lr_backendAuthentication :=
                    Some ((backendAuthenticationMessage
                             ''Backend authentication skipped by request'')
                          \<lparr>ba_skipped := Some True\<rparr>)\<rparr>), bs)
            else
              (case authenticateUser post (ar_userId result) bs of
                 (Inr (BackendSuccess d s), bs1) \<Rightarrow>
                   (Json (baseResponse
                      \<lparr>lr_backendAuthentication :=
                         Some ((backendAuthenticationMessage ''Backend signin successful'')
                               \<lparr>ba_success := Some True, ba_data := Some d,
                                ba_status := Some s\<rparr>)\<rparr>), bs1)
               | (Inr (BackendFailure e), bs1) \<Rightarrow>
                   (Json (baseResponse
                      \<lparr>lr_backendAuthentication :=
                         Some ((backendAuthenticationMessage ''Backend signin failed'')
                               \<lparr>ba_success := Some False,
                                ba_error := Some (ErrorObject e)\<rparr>),
                       lr_warning :=
                         Some ''Passkey authentication successful but backend signin failed''\<rparr>),
                    bs1)
               | (Inl backendError, bs1) \<Rightarrow>
                   (case getUserCredentials (ar_userId result) bs1 of
                      (Inr None, bs2) \<Rightarrow>
                        (case getAvailableUsers bs2 of
                           (Inr users, bs3) \<Rightarrow>
                             (Json (baseResponse
                                \<lparr>lr_backendAuthentication :=
                                   Some ((backendAuthenticationMessage
                                            (''No backend credentials configured for user: ''
                                               @ ar_userId result))
                                         \<lparr>ba_success := Some False,
                                          ba_availableUsers := Some users\<rparr>),
                                 lr_warning :=
                                   Some ''Passkey authentication successful but no backend credentials configured''\<rparr>),
                              bs3)
                         | (Inl credentialError, bs3) \<Rightarrow>
                             (Json (baseResponse
                                \<lparr>lr_backendAuthentication :=
                                   Some ((backendAuthenticationMessage
                                            ''Backend service unavailable'')
                                         \<lparr>ba_success := Some False,
                                          ba_error := Some (ErrorMessage credentialError)\<rparr>),
                                 lr_warning :=
                                   Some ''Passkey authentication successful but backend service unavailable''\<rparr>),
                              bs3))
                    | (Inr (Some found), bs2) \<Rightarrow>
                        (Json (baseResponse
                           \<lparr>lr_backendAuthentication :=
                              Some ((backendAuthenticationMessage ''Backend service error'')
                                    \<lparr>ba_success := Some False,
                                     ba_error := Some (ErrorMessage backendError)\<rparr>),
                            lr_warning :=
                              Some ''Passkey authentication successful but backend service unavailable''\<rparr>),
                         bs2)
                    | (Inl credentialError, bs2) \<Rightarrow>
                        (Json (baseResponse
                           \<lparr>lr_backendAuthentication :=
                              Some ((backendAuthenticationMessage ''Backend service unavailable'')
                                    \<lparr>ba_success := Some False,
                                     ba_error := Some (ErrorMessage credentialError)\<rparr>),
                            lr_warning :=
                              Some ''Passkey authentication successful but backend service unavailable''\<rparr>),
                         bs2))))
      else (Unauthorized ''Authentication failed'', bs))"

definition loginComplete ::
  "webauthn_service \<Rightarrow> (authentication_verify_request \<Rightarrow> nat verification)
     \<Rightarrow> (signin_request \<Rightarrow> axios_outcome) \<Rightarrow> timestamp
     \<Rightarrow> login_body \<Rightarrow> string option \<Rightarrow> string option
     \<Rightarrow> kv_state \<times> backend_service \<Rightarrow> http_response \<times> kv_state \<times> backend_service" where
  "loginComplete svc verifyAuthenticationResponse post now body headerOrigin headerReferer sb =
     (let requestOrigin = or_else (or_else (lb_origin body) headerOrigin) headerReferer
      in case verifyAuthentication svc verifyAuthenticationResponse now
                (lb_sessionId body) (lb_credential body) requestOrigin (fst sb) of
           (Inl e, st') \<Rightarrow> (Next e, st', snd sb)
         | (Inr result, st') \<Rightarrow>
             (case respondAuthenticated post now (lb_skipBackendAuth body) result (snd sb) of
                (response, bs') \<Rightarrow> (response, st', bs')))"

section \<open>\<^verbatim>\<open>JSONStorage\<close>, the file-backed store\<close>

text \<open>
  Each file holds one JSON object, read whole and written whole by every operation; an
  object is the association list of its entries in insertion order. Reading and
  writing the files is taken to succeed, and the keys are identifiers as
  \<^verbatim>\<open>uuidv4()\<close> draws them.
\<close>

record json_state =
  passkeyFile :: "(string \<times> passkey) list"
  userFile :: "(string \<times> user) list"
  sessionFile :: "(string \<times> session) list"

definition JSON_getPasskeyById :: "string \<Rightarrow> json_state \<Rightarrow> passkey option" where
  "JSON_getPasskeyById passkeyId st = map_of (passkeyFile st) passkeyId"

definition JSON_savePasskey :: "timestamp \<Rightarrow> string \<Rightarrow> passkey_data \<Rightarrow> json_state \<Rightarrow> bool \<times> json_state" where
  "JSON_savePasskey now passkeyId passkeyData st =
     (True,
      st\<lparr>passkeyFile :=
           AList.update passkeyId
             \<lparr>pk_data = passkeyData, pk_id = passkeyId, pk_createdAt = now, pk_lastUsed = now\<rparr>
             (passkeyFile st)\<rparr>)"

definition JSON_updatePasskeyLastUsed :: "timestamp \<Rightarrow> string \<Rightarrow> json_state \<Rightarrow> bool \<times> json_state" where
  "JSON_updatePasskeyLastUsed now passkeyId st =
     (case map_of (passkeyFile st) passkeyId of
        Some p \<Rightarrow>
          (True,
           st\<lparr>passkeyFile := AList.update passkeyId (p\<lparr>pk_lastUsed := now\<rparr>) (passkeyFile st)\<rparr>)
      | None \<Rightarrow> (False, st))"

definition JSON_saveUser :: "timestamp \<Rightarrow> string \<Rightarrow> user_data \<Rightarrow> json_state \<Rightarrow> bool \<times> json_state" where
  "JSON_saveUser now userId userData st =
     (True,
      st\<lparr>userFile :=
           AList.update userId
             \<lparr>u_data = userData, u_id = userId,
              u_createdAt =
                (case map_of (userFile st) userId of Some e \<Rightarrow> u_createdAt e | None \<Rightarrow> now),
              u_updatedAt = now\<rparr>
             (userFile st)\<rparr>)"

definition JSON_saveChallenge :: "timestamp \<Rightarrow> string \<Rightarrow> challenge_data \<Rightarrow> json_state \<Rightarrow> bool \<times> json_state" where
  "JSON_saveChallenge now sessionId challengeData st =
     (True,
      st\<lparr>sessionFile :=
           AList.update sessionId
             \<lparr>s_data = challengeData, s_createdAt = now, s_expiresAt = now + 5 * 60 * 1000\<rparr>
             (sessionFile st)\<rparr>)"

definition JSON_deleteChallenge :: "string \<Rightarrow> json_state \<Rightarrow> bool \<times> json_state" where
  "JSON_deleteChallenge sessionId st =
     (case map_of (sessionFile st) sessionId of
        Some s \<Rightarrow> (True, st\<lparr>sessionFile := AList.delete sessionId (sessionFile st)\<rparr>)
      | None \<Rightarrow> (False, st))"

definition JSON_getChallenge :: "timestamp \<Rightarrow> string \<Rightarrow> json_state \<Rightarrow> session option \<times> json_state" where
  "JSON_getChallenge now sessionId st =
     (case map_of (sessionFile st) sessionId of
        None \<Rightarrow> (None, st)
      | Some session \<Rightarrow>
          if now > s_expiresAt session
          then (None, snd (JSON_deleteChallenge sessionId st))
          else (Some session, st))"

text \<open>
  The loop of \<^verbatim>\<open>cleanupExpiredSessions\<close> over \<^verbatim>\<open>Object.entries(sessions)\<close>: the
  entries still to visit, and the pair of the object being edited and the flag
  \<^verbatim>\<open>cleaned\<close>.
\<close>

fun cleanupLoop ::
  "timestamp \<Rightarrow> (string \<times> session) list \<Rightarrow> (string \<times> session) list \<times> bool
     \<Rightarrow> (string \<times> session) list \<times> bool" where
  "cleanupLoop now [] acc = acc"
| "cleanupLoop now ((sessionId, session) # entries) (sessions, cleaned) =
     (if s_expiresAt session < now
      then cleanupLoop now entries (AList.delete sessionId sessions, True)
      else cleanupLoop now entries (sessions, cleaned))"

definition JSON_cleanupExpiredSessions :: "timestamp \<Rightarrow> json_state \<Rightarrow> bool \<times> json_state" where
  "JSON_cleanupExpiredSessions now st =
     (case cleanupLoop now (sessionFile st) (sessionFile st, False) of
        (sessions, cleaned) \<Rightarrow>
          (cleaned, if cleaned then st\<lparr>sessionFile := sessions\<rparr> else st))"

section \<open>A worked scenario\<close>

text \<open>
  User \<^verbatim>\<open>u1\<close> registers a passkey from Android and signs in with it. The stores
  below are the states between the four calls: after \<open>generateRegistrationOptions\<close>
  at time 1000 (\<open>storeBegun\<close>), after \<open>verifyRegistration\<close> at time 2000
  (\<open>storeRegistered\<close>), after \<open>generateAuthenticationOptions\<close> at time 3000
  (\<open>storeAuthBegun\<close>), and after \<open>verifyAuthentication\<close> at time 4000 with the
  authenticator reporting the counter 6 (\<open>storeAuthenticated\<close>).
\<close>

definition emptyStore :: kv_state where
  "emptyStore = \<lparr>kv_passkeys = [], kv_users = [], kv_sessions = []\<rparr>"

definition exampleInfo :: registration_info where
  "exampleInfo =
     \<lparr>ri_credentialID = ''cred-1'', ri_credentialPublicKey = ''pub-1'', ri_counter = 5,
      ri_credentialDeviceType = ''singleDevice'', ri_credentialBackedUp = False,
      ri_aaguid = ''aaguid-1''\<rparr>"

definition exampleCredential :: credential where
  "exampleCredential = \<lparr>c_rawId = ''cred-1'', c_transports = None\<rparr>"

definition exampleRegistrationSession :: session where
  "exampleRegistrationSession =
     \<lparr>s_data =
        \<lparr>cd_challenge = ''c1'', cd_userId = Some ''u1'', cd_username = Some ''a@b.com'',
         cd_displayName = Some ''A'', cd_platform = ''android'', cd_type = Registration\<rparr>,
      s_createdAt = 1000, s_expiresAt = 301000\<rparr>"

definition storeBegun :: kv_state where
  "storeBegun =
     \<lparr>kv_passkeys = [], kv_users = [],
      kv_sessions = [(''s1'', (exampleRegistrationSession, 301000))]\<rparr>"

definition examplePasskeyData :: passkey_data where
  "examplePasskeyData =
     \<lparr>pd_userId = ''u1'', pd_username = Some ''a@b.com'', pd_displayName = Some ''A'',
      pd_credentialID = ''cred-1'', pd_credentialPublicKey = ''pub-1'', pd_counter = 5,
      pd_credentialDeviceType = ''singleDevice'', pd_credentialBackedUp = False,
      pd_transports = Some [''internal'', ''hybrid'', ''nfc'', ''ble'', ''usb''],
      pd_aaguid = ''aaguid-1'', pd_platform = ''android'',
      pd_registeredFrom = ''http://localhost:3000''\<rparr>"

definition examplePasskey :: passkey where
  "examplePasskey =
     \<lparr>pk_data = examplePasskeyData, pk_id = ''p1'', pk_createdAt = 2000, pk_lastUsed = 2000\<rparr>"

definition exampleUser :: user where
  "exampleUser =
     \<lparr>u_data = \<lparr>ud_username = Some ''a@b.com'', ud_displayName = Some ''A''\<rparr>,
      u_id = ''u1'', u_createdAt = 2000, u_updatedAt = 2000\<rparr>"

definition storeRegistered :: kv_state where
  "storeRegistered =
     \<lparr>kv_passkeys = [(''p1'', examplePasskey)],
      kv_users = [(''u1'', exampleUser)],
      kv_sessions = []\<rparr>"

definition exampleAuthenticationSession :: session where
  "exampleAuthenticationSession =
     \<lparr>s_data =
        \<lparr>cd_challenge = ''c2'', cd_userId = Some ''u1'', cd_username = None,
         cd_displayName = None, cd_platform = ''android'', cd_type = Authentication\<rparr>,
      s_createdAt = 3000, s_expiresAt = 303000\<rparr>"

definition storeAuthBegun :: kv_state where
  "storeAuthBegun =
     \<lparr>kv_passkeys = [(''p1'', examplePasskey)],
      kv_users = [(''u1'', exampleUser)],
      kv_sessions = [(''s2'', (exampleAuthenticationSession, 303000))]\<rparr>"

definition storeAuthenticated :: kv_state where
  "storeAuthenticated =
     \<lparr>kv_passkeys =
        [(''p1'', \<lparr>pk_data = examplePasskeyData\<lparr>pd_counter := 6\<rparr>, pk_id = ''p1'',
                   pk_createdAt = 4000, pk_lastUsed = 4000\<rparr>)],
      kv_users = [(''u1'', exampleUser)],
      kv_sessions = []\<rparr>"

definition exampleAuthenticationResult :: authentication_result where
  "exampleAuthenticationResult =
     \<lparr>ar_verified = True, ar_userId = ''u1'', ar_username = Some ''a@b.com'',
      ar_passkeyId = ''p1'', ar_passkey = examplePasskey\<rparr>"

text \<open>
  A second store, with a passkey of another user \<^verbatim>\<open>u2\<close> that declares no
  transports.
\<close>

definition exampleDescriptor :: credential_descriptor where
  "exampleDescriptor =
     \<lparr>cdesc_id = ''cred-1'', cdesc_type = ''public-key'',
      cdesc_transports = [''internal'', ''hybrid'', ''nfc'', ''ble'', ''usb'']\<rparr>"

definition otherPasskey :: passkey where
  "otherPasskey =
     \<lparr>pk_data = examplePasskeyData\<lparr>pd_userId := ''u2'', pd_username := Some ''c@d.com'',
                   pd_credentialID := ''cred-2'', pd_transports := None\<rparr>,
      pk_id = ''p2'', pk_createdAt = 2500, pk_lastUsed = 2500\<rparr>"

definition storeTwoUsers :: kv_state where
  "storeTwoUsers =
     \<lparr>kv_passkeys = [(''p1'', examplePasskey), (''p2'', otherPasskey)],
      kv_users = [(''u1'', exampleUser)],
      kv_sessions = []\<rparr>"

text \<open>The file-backed store holding the same registered passkey.\<close>

definition jsonStoreRegistered :: json_state where
  "jsonStoreRegistered =
     \<lparr>passkeyFile = [(''p1'', examplePasskey)],
      userFile = [(''u1'', exampleUser)],
      sessionFile = []\<rparr>"

text \<open>The file-backed store holding the registration session of the scenario.\<close>

definition jsonStoreBegun :: json_state where
  "jsonStoreBegun =
     \<lparr>passkeyFile = [], userFile = [],
      sessionFile = [(''s1'', exampleRegistrationSession)]\<rparr>"

text \<open>
  The backend of the scenario: its configuration has sign-in credentials for the users
  \<^verbatim>\<open>u7\<close>, \<^verbatim>\<open>10\<close> and \<^verbatim>\<open>2\<close> only and is not loaded yet; and the body of the
  request that completes the sign-in of \<^verbatim>\<open>u1\<close>.
\<close>

definition exampleConfig :: backend_config where
  "exampleConfig =
     \<lparr>userCredentials =
        [(''u7'', \<lparr>bc_username = ''seven'', bc_password = ''secret''\<rparr>),
         (''10'', \<lparr>bc_username = ''ten'', bc_password = ''secret''\<rparr>),
         (''2'', \<lparr>bc_username = ''two'', bc_password = ''secret''\<rparr>)],
      baseUrl = ''https://backend.example'',
      signinEndpoint = ''/signin'',
      backendTimeout = None\<rparr>"

definition exampleBackend :: backend_service where
  "exampleBackend = \<lparr>bs_config = None, bs_configFile = Some exampleConfig\<rparr>"

definition exampleBody :: login_body where
  "exampleBody =
     \<lparr>lb_sessionId = ''s2'', lb_credential = exampleCredential, lb_origin = None,
      lb_skipBackendAuth = False\<rparr>"

text \<open>
  A user who registered under the user id \<^verbatim>\<open>constructor\<close>, which the validation
  schema accepts as it accepts any string of 1 to 100 characters, about to complete a
  sign-in; and two remote systems, one answering 200 to a sign-in request that carries
  neither username nor password, one answering 401 to every request.
\<close>

definition constructorPasskey :: passkey where
  "constructorPasskey =
     \<lparr>pk_data = examplePasskeyData\<lparr>pd_userId := ''constructor''\<rparr>, pk_id = ''p1'',
      pk_createdAt = 2000, pk_lastUsed = 2000\<rparr>"

definition storeConstructorAuthBegun :: kv_state where
  "storeConstructorAuthBegun =
     \<lparr>kv_passkeys = [(''p1'', constructorPasskey)],
      kv_users = [],
      kv_sessions = [(''s2'', (exampleAuthenticationSession, 303000))]\<rparr>"

definition answerOk :: "signin_request \<Rightarrow> axios_outcome" where
  "answerOk request =
     (if sr_username request = None \<and> sr_password request = None
      then Response ''{}'' 200 else ErrorRequest)"

definition answerUnauthorized :: "signin_request \<Rightarrow> axios_outcome" where
  "answerUnauthorized request = ErrorResponse None 401 ''{}''"

definition storeConstructorAuthenticated :: kv_state where
  "storeConstructorAuthenticated =
     \<lparr>kv_passkeys =
        [(''p1'', \<lparr>pk_data = examplePasskeyData\<lparr>pd_userId := ''constructor'', pd_counter := 6\<rparr>,
                   pk_id = ''p1'', pk_createdAt = 4000, pk_lastUsed = 4000\<rparr>)],
      kv_users = [], kv_sessions = []\<rparr>"

section \<open>Facts about the store and the examples\<close>

lemmas kv_defs =
  kv_keys_def kv_get_def kv_set_def kv_del_def kv_get_ex_def kv_set_ex_def
  KV_getPasskeys_def KV_getPasskeyById_def KV_savePasskey_def KV_updatePasskeyLastUsed_def
  KV_getUser_def KV_saveUser_def KV_saveChallenge_def KV_getChallenge_def
  KV_deleteChallenge_def List.map_filter_def

lemmas example_defs =
  emptyStore_def exampleInfo_def exampleCredential_def exampleRegistrationSession_def
  storeBegun_def examplePasskeyData_def examplePasskey_def exampleUser_def
  storeRegistered_def exampleAuthenticationSession_def storeAuthBegun_def
  storeAuthenticated_def exampleAuthenticationResult_def

lemma toLowerCase_android: "toLowerCase ''android'' = ''android''"
  by (simp add: toLowerCase_def toLowerChar_def)

lemma toLowerCase_ios: "toLowerCase ''ios'' = ''ios''"
  by (simp add: toLowerCase_def toLowerChar_def)

lemma toLowerCase_web: "toLowerCase ''web'' = ''web''"
  by (simp add: toLowerCase_def toLowerChar_def)

lemma kv_get_ex_del: "kv_get_ex now (kv_del k al) k = None"
proof -
  have "map_of (AList.delete k al) k = None"
    by (simp add: map_of_eq_None_iff delete_notin_dom)
  then show ?thesis by (simp add: kv_get_ex_def kv_del_def)
qed

lemma getChallenge_deleteChallenge:
  "KV_getChallenge now sid (KV_deleteChallenge sid st) = None"
  by (simp add: KV_getChallenge_def KV_deleteChallenge_def kv_get_ex_del)

lemma verifyRegistration_absent:
  "KV_getChallenge now sid st = None \<Longrightarrow>
   verifyRegistration svc prim pid now sid cred uid org plat st
     = (Inl (SessionExpiredOrInvalid Registration), st)"
  by (simp add: verifyRegistration_def)

lemma verifyRegistration_wrong_type:
  "KV_getChallenge now sid st = Some s \<Longrightarrow> cd_type (s_data s) \<noteq> Registration \<Longrightarrow>
   verifyRegistration svc prim pid now sid cred uid org plat st
     = (Inl (SessionExpiredOrInvalid Registration), st)"
  by (simp add: verifyRegistration_def Let_def)

lemma verifyRegistration_success_state:
  assumes "verifyRegistration svc prim pid now sid cred uid org plat st = (Inr r, st')"
  shows "\<exists>st2. st' = KV_deleteChallenge sid st2"
  using assms
  by (auto simp: verifyRegistration_def Let_def
           split: option.splits if_splits sum.splits verification.splits)

lemma verifyAuthentication_absent:
  "KV_getChallenge now sid st = None \<Longrightarrow>
   verifyAuthentication svc prim now sid cred org st
     = (Inl (SessionExpiredOrInvalid Authentication), st)"
  by (simp add: verifyAuthentication_def verifyAuthentication_afterGetChallenge_def)

lemma verifyAuthentication_wrong_type:
  "KV_getChallenge now sid st = Some s \<Longrightarrow> cd_type (s_data s) \<noteq> Authentication \<Longrightarrow>
   verifyAuthentication svc prim now sid cred org st
     = (Inl (SessionExpiredOrInvalid Authentication), st)"
  by (simp add: verifyAuthentication_def verifyAuthentication_afterGetChallenge_def Let_def)


lemma getChallenge_saveChallenge:
  "KV_getChallenge now sid (KV_saveChallenge now0 sid cd st) =
     (if now0 + 5 * 60 * 1000 < now then None
      else Some \<lparr>s_data = cd, s_createdAt = now0, s_expiresAt = now0 + 5 * 60 * 1000\<rparr>)"
  by (simp add: KV_getChallenge_def KV_saveChallenge_def kv_get_ex_def kv_set_ex_def
      update_conv' Let_def)

lemma generateRegistrationOptions_session:
  "KV_getChallenge now sid
     (snd (generateRegistrationOptions svc ch sid now0 uid un dn plat st)) = None
   \<or> (\<exists>s. KV_getChallenge now sid
             (snd (generateRegistrationOptions svc ch sid now0 uid un dn plat st)) = Some s
          \<and> cd_type (s_data s) = Registration)"
  by (simp add: generateRegistrationOptions_def Let_def getChallenge_saveChallenge)

lemma verifyRegistration_failure_state:
  "verifyRegistration svc rp pid now sid cred uid org plat st = (Inl e, st') \<Longrightarrow> st' = st"
  by (auto simp: verifyRegistration_def Let_def
           split: option.splits if_splits sum.splits verification.splits)

lemma verifyAuthentication_failure_state:
  "verifyAuthentication svc ap now sid cred org st = (Inl e, st') \<Longrightarrow> st' = st"
  by (auto simp: verifyAuthentication_def verifyAuthentication_afterGetChallenge_def Let_def
           split: option.splits if_splits sum.splits verification.splits)

lemma verifyRegistration_success:
  assumes "verifyRegistration svc rp pid now sid cred uid org plat st = (Inr r, st')"
  shows "\<exists>s eo info ud.
           KV_getChallenge now sid st = Some s
         \<and> cd_type (s_data s) = Registration
         \<and> cd_userId (s_data s) = Some uid
         \<and> resolveExpectedOrigin svc org plat = Inr eo
         \<and> rp \<lparr>rv_response = cred, rv_expectedChallenge = cd_challenge (s_data s),
                rv_expectedOrigin = eo, rv_expectedRPID = rpID svc\<rparr> = Verified info
         \<and> rr_verified r \<and> rr_passkeyId r = pid
         \<and> pd_credentialID (rr_passkey r) = ri_credentialID info
         \<and> pd_counter (rr_passkey r) = ri_counter info
         \<and> st' = KV_deleteChallenge sid
                   (KV_saveUser now uid ud (KV_savePasskey now pid (rr_passkey r) st))"
  using assms
  by (auto simp: verifyRegistration_def Let_def
           split: option.splits if_splits sum.splits verification.splits)

lemma verifyAuthentication_success:
  assumes "verifyAuthentication svc ap now sid cred org st = (Inr r, st')"
  shows "\<exists>s p eo n.
           KV_getChallenge now sid st = Some s
         \<and> cd_type (s_data s) = Authentication
         \<and> find (\<lambda>p. pd_credentialID (pk_data p) = c_rawId cred) (KV_getPasskeys None st) = Some p
         \<and> resolveExpectedOrigin svc org
              (if cd_platform (s_data s) \<noteq> [] then cd_platform (s_data s) else ''web'') = Inr eo
         \<and> ap \<lparr>av_response = cred, av_expectedChallenge = cd_challenge (s_data s),
                av_expectedOrigin = eo, av_expectedRPID = rpID svc,
                av_authenticator =
                  \<lparr>au_credentialID = pd_credentialID (pk_data p),
                   au_credentialPublicKey = pd_credentialPublicKey (pk_data p),
                   au_counter = pd_counter (pk_data p),
                   au_transports = pd_transports (pk_data p)\<rparr>\<rparr> = Verified n
         \<and> r = \<lparr>ar_verified = True, ar_userId = pd_userId (pk_data p),
                 ar_username = pd_username (pk_data p), ar_passkeyId = pk_id p,
                 ar_passkey = p\<rparr>
         \<and> st' = KV_deleteChallenge sid
                   (snd (KV_updatePasskeyLastUsed now (pk_id p)
                      (KV_savePasskey now (pk_id p) ((pk_data p)\<lparr>pd_counter := n\<rparr>) st)))"
  using assms
  by (auto simp: verifyAuthentication_def verifyAuthentication_afterGetChallenge_def Let_def
           split: option.splits if_splits sum.splits verification.splits)

lemma getPasskeyById_after_registration:
  "KV_getPasskeyById pid (KV_deleteChallenge sid (KV_saveUser now uid ud (KV_savePasskey now pid d st)))
     = Some \<lparr>pk_data = d, pk_id = pid, pk_createdAt = now, pk_lastUsed = now\<rparr>"
  by (simp add: KV_getPasskeyById_def KV_deleteChallenge_def KV_saveUser_def KV_savePasskey_def
      KV_getUser_def kv_get_def kv_set_def update_conv' Let_def)

lemma getPasskeyById_after_authentication:
  "KV_getPasskeyById pid (KV_deleteChallenge sid
      (snd (KV_updatePasskeyLastUsed now pid (KV_savePasskey now pid d st))))
     = Some \<lparr>pk_data = d, pk_id = pid, pk_createdAt = now, pk_lastUsed = now\<rparr>"
  by (simp add: KV_getPasskeyById_def KV_deleteChallenge_def KV_updatePasskeyLastUsed_def
      KV_savePasskey_def kv_get_def kv_set_def update_conv' Let_def)

lemma getPasskeys_of_user:
  "KV_getPasskeys userId st =
     (if truthy userId
      then filter (\<lambda>p. Some (pd_userId (pk_data p)) = userId) (KV_getPasskeys None st)
      else KV_getPasskeys None st)"
  by (simp add: KV_getPasskeys_def)

text \<open>The four calls of the scenario, evaluated.\<close>

lemma example_generateRegistrationOptions:
  "snd (generateRegistrationOptions defaultService ''c1'' ''s1'' 1000
          ''u1'' ''a@b.com'' (Some ''A'') ''android'' emptyStore) = storeBegun"
  by (simp add: generateRegistrationOptions_def example_defs Let_def kv_defs)

lemma example_verifyRegistration:
  "verifyRegistration defaultService (\<lambda>req. Verified exampleInfo) ''p1'' 2000 ''s1''
     exampleCredential ''u1'' None ''android'' storeBegun
   = (Inr \<lparr>rr_verified = True, rr_passkeyId = ''p1'', rr_passkey = examplePasskeyData\<rparr>,
      storeRegistered)"
  by (simp add: verifyRegistration_def example_defs resolveExpectedOrigin_def
      defaultService_def getTransportsForPlatform_def toLowerCase_android Let_def kv_defs)

lemma example_generateAuthenticationOptions:
  "snd (generateAuthenticationOptions defaultService ''c2'' ''s2'' 3000
          (Some ''u1'') ''android'' storeRegistered) = storeAuthBegun"
  by (simp add: generateAuthenticationOptions_def example_defs Let_def kv_defs)

lemma example_verifyAuthentication:
  "verifyAuthentication defaultService (\<lambda>req. Verified 6) 4000 ''s2''
     exampleCredential None storeAuthBegun
   = (Inr exampleAuthenticationResult, storeAuthenticated)"
  by (simp add: verifyAuthentication_def verifyAuthentication_afterGetChallenge_def
      example_defs resolveExpectedOrigin_def defaultService_def Let_def kv_defs)



text \<open>
  The sweep of the file-backed store: it only removes entries, and it removes every
  key that has an expired entry.
\<close>

lemma cleanupLoop_keys:
  "fst ` set (fst (cleanupLoop now es (sessions, c))) \<subseteq> fst ` set sessions"
proof (induction es arbitrary: sessions c)
  case Nil
  then show ?case by simp
next
  case (Cons entry es)
  obtain k s where entry: "entry = (k, s)" by (cases entry)
  show ?case
  proof (cases "s_expiresAt s < now")
    case True
    have "fst ` set (fst (cleanupLoop now es (AList.delete k sessions, True)))
            \<subseteq> fst ` set (AList.delete k sessions)"
      by (rule Cons.IH)
    also have "\<dots> \<subseteq> fst ` set sessions"
      by (rule dom_delete_subset)
    finally show ?thesis using True entry by simp
  next
    case False
    with entry Cons.IH [of sessions c] show ?thesis by simp
  qed
qed

lemma cleanupLoop_removes:
  "(k, s) \<in> set es \<Longrightarrow> s_expiresAt s < now \<Longrightarrow>
   k \<notin> fst ` set (fst (cleanupLoop now es (sessions, c)))"
proof (induction es arbitrary: sessions c)
  case Nil
  then show ?case by simp
next
  case (Cons entry es)
  obtain k' s' where entry: "entry = (k', s')" by (cases entry)
  show ?case
  proof (cases "(k, s) = entry")
    case True
    with entry have same: "k' = k" "s' = s" by simp_all
    have "fst ` set (fst (cleanupLoop now es (AList.delete k sessions, True)))
            \<subseteq> fst ` set (AList.delete k sessions)"
      by (rule cleanupLoop_keys)
    moreover have "k \<notin> fst ` set (AList.delete k sessions)"
      by (rule delete_notin_dom)
    ultimately have "k \<notin> fst ` set (fst (cleanupLoop now es (AList.delete k sessions, True)))"
      by blast
    with entry same Cons.prems(2) show ?thesis by simp
  next
    case False
    with Cons.prems(1) have later: "(k, s) \<in> set es" by auto
    show ?thesis
    proof (cases "s_expiresAt s' < now")
      case True
      with entry Cons.IH [OF later Cons.prems(2), of "AList.delete k' sessions" True]
      show ?thesis by simp
    next
      case False
      with entry Cons.IH [OF later Cons.prems(2), of sessions c]
      show ?thesis by simp
    qed
  qed
qed

lemma cleanup_then_getChallenge:
  assumes "map_of (sessionFile js) sid = Some s" and "s_expiresAt s < now"
  shows "fst (JSON_getChallenge now sid (snd (JSON_cleanupExpiredSessions now js))) = None"
proof -
  from assms(1) have mem: "(sid, s) \<in> set (sessionFile js)"
    by (rule map_of_SomeD)
  obtain sessions cleaned where
    loop: "cleanupLoop now (sessionFile js) (sessionFile js, False) = (sessions, cleaned)"
    by (cases "cleanupLoop now (sessionFile js) (sessionFile js, False)")
  from cleanupLoop_removes [OF mem assms(2), of "sessionFile js" False] loop
  have gone: "map_of sessions sid = None"
    by (simp add: map_of_eq_None_iff)
  show ?thesis
  proof (cases cleaned)
    case True
    with loop gone show ?thesis
      by (simp add: JSON_cleanupExpiredSessions_def JSON_getChallenge_def)
  next
    case False
    with loop assms show ?thesis
      by (simp add: JSON_cleanupExpiredSessions_def JSON_getChallenge_def)
  qed
qed

lemma JSON_getChallenge_expired:
  assumes "map_of (sessionFile js) sid = Some s" and "s_expiresAt s < now"
  shows "fst (JSON_getChallenge now sid js) = None"
  using assms by (simp add: JSON_getChallenge_def)

lemma JSON_getChallenge_absent:
  "fst (JSON_getChallenge now sid (snd (JSON_deleteChallenge sid js))) = None"
proof -
  have "map_of (AList.delete sid (sessionFile js)) sid = None"
    by (simp add: map_of_eq_None_iff delete_notin_dom)
  then show ?thesis
    by (auto simp: JSON_getChallenge_def JSON_deleteChallenge_def split: option.splits)
qed

lemma KV_getChallenge_expired:
  "map_of (kv_sessions st) sid = Some (s, deadline) \<Longrightarrow> deadline < now \<Longrightarrow>
   KV_getChallenge now sid st = None"
  by (simp add: KV_getChallenge_def kv_get_ex_def)

text \<open>The backend service once its configuration is loaded, and the route's responses.\<close>

lemma ensureConfigLoaded_loaded:
  "ensureConfigLoaded bs = Inr bs' \<Longrightarrow> bs_config bs' = Some config \<Longrightarrow>
   ensureConfigLoaded bs' = Inr bs'"
  by (simp add: ensureConfigLoaded_def)

lemma authenticateUser_no_credentials:
  assumes "ensureConfigLoaded bs = Inr bs'" and "bs_config bs' = Some config"
    and "js_property (userCredentials config) userId = None"
  shows "authenticateUser post userId bs
           = (Inl (''No credentials configured for user: '' @ userId), bs')"
  using assms by (simp add: authenticateUser_def)

lemma getUserCredentials_loaded:
  assumes "ensureConfigLoaded bs = Inr bs'" and "bs_config bs' = Some config"
  shows "getUserCredentials userId bs = (Inr (js_property (userCredentials config) userId), bs')"
  using assms by (simp add: getUserCredentials_def)

lemma getAvailableUsers_loaded:
  assumes "ensureConfigLoaded bs = Inr bs'" and "bs_config bs' = Some config"
  shows "getAvailableUsers bs = (Inr (objectKeys (userCredentials config)), bs')"
  using assms by (simp add: getAvailableUsers_def)

lemma respondAuthenticated_success:
  assumes "ar_verified result"
  shows "\<exists>response ba bs'.
           respondAuthenticated post now skip result bs = (Json response, bs')
         \<and> lr_success response
         \<and> lr_user response
             = \<lparr>us_userId = ar_userId result, us_username = ar_username result,
                us_passkeyId = ar_passkeyId result\<rparr>
         \<and> lr_backendAuthentication response = Some ba
         \<and> (ba_success ba = Some True \<or> ba_skipped ba = Some True
              \<or> lr_warning response \<noteq> None)"
  using assms
  by (auto simp: respondAuthenticated_def Let_def backendAuthenticationMessage_def
           split: prod.splits sum.splits option.splits backend_result.splits)

lemma respondAuthenticated_no_credentials:
  assumes "ar_verified result" and "\<not> skip"
    and "ensureConfigLoaded bs = Inr bs'" and "bs_config bs' = Some config"
    and "js_property (userCredentials config) (ar_userId result) = None"
  shows "respondAuthenticated post now skip result bs =
           (Json \<lparr>lr_success = True,
                  lr_message = ''Authentication successful'',
                  lr_user = \<lparr>us_userId = ar_userId result, us_username = ar_username result,
                             us_passkeyId = ar_passkeyId result\<rparr>,
                  lr_authenticatedAt = now,
                  lr_backendAuthentication =
                    Some \<lparr>ba_skipped = None, ba_success = Some False,
                          ba_message = ''No backend credentials configured for user: ''
                                         @ ar_userId result,
                          ba_data = None, ba_status = None, ba_error = None,
                          ba_availableUsers = Some (objectKeys (userCredentials config))\<rparr>,
                  lr_warning =
                    Some ''Passkey authentication successful but no backend credentials configured''\<rparr>,
            bs')"
proof -
  have loaded: "ensureConfigLoaded bs' = Inr bs'"
    using assms(3,4) by (rule ensureConfigLoaded_loaded)
  show ?thesis
    using assms(1,2,5)
    by (simp add: respondAuthenticated_def Let_def backendAuthenticationMessage_def
        authenticateUser_no_credentials [OF assms(3,4,5)]
        getUserCredentials_loaded [OF loaded assms(4)]
        getAvailableUsers_loaded [OF loaded assms(4)])
qed


lemma example_ensureConfigLoaded:
  "ensureConfigLoaded exampleBackend = Inr (exampleBackend\<lparr>bs_config := Some exampleConfig\<rparr>)"
  by (simp add: ensureConfigLoaded_def loadConfig_def exampleBackend_def)

lemma example_no_credentials:
  "js_property (userCredentials exampleConfig) ''u1'' = None"
  by (simp add: js_property_def exampleConfig_def objectPrototypeNames_def)

lemma example_objectKeys: "objectKeys (userCredentials exampleConfig) = [''2'', ''10'', ''u7'']"
  by (simp add: objectKeys_def exampleConfig_def arrayIndex_def digitValue_def
      List.map_filter_def Let_def)

lemma example_constructor_not_configured:
  "map_of (userCredentials exampleConfig) ''constructor'' = None
   \<and> ''constructor'' \<notin> set (objectKeys (userCredentials exampleConfig))"
  by (simp add: example_objectKeys) (simp add: exampleConfig_def)

lemma example_constructor_lookup:
  "js_property (userCredentials exampleConfig) ''constructor'' = Some Inherited"
  by (simp add: js_property_def exampleConfig_def objectPrototypeNames_def)

lemma example_constructor_verifyAuthentication:
  "verifyAuthentication defaultService (\<lambda>req. Verified 6) 4000 ''s2''
     exampleCredential None storeConstructorAuthBegun
   = (Inr \<lparr>ar_verified = True, ar_userId = ''constructor'', ar_username = Some ''a@b.com'',
           ar_passkeyId = ''p1'', ar_passkey = constructorPasskey\<rparr>,
      storeConstructorAuthenticated)"
  by (simp add: verifyAuthentication_def verifyAuthentication_afterGetChallenge_def
      storeConstructorAuthBegun_def storeConstructorAuthenticated_def constructorPasskey_def
      example_defs resolveExpectedOrigin_def defaultService_def Let_def kv_defs)


lemma example_constructor_request:
  "authenticateUser post ''constructor'' exampleBackend
   = (case post \<lparr>sr_url = ''https://backend.example/signin'', sr_username = None,
                   sr_password = None, sr_timeout = 30000\<rparr> of
        Response d s \<Rightarrow> (Inr (BackendSuccess d s), exampleBackend\<lparr>bs_config := Some exampleConfig\<rparr>)
      | ErrorResponse m s d \<Rightarrow>
          (Inr (BackendFailure
                  \<lparr>be_message = (if truthy m then str_of m else ''Authentication failed''),
                   be_status = s, be_data = Some d\<rparr>),
           exampleBackend\<lparr>bs_config := Some exampleConfig\<rparr>)
      | ErrorRequest \<Rightarrow>
          (Inr (BackendFailure
                  \<lparr>be_message = ''Unable to connect to backend service'',
                   be_status = 503, be_data = None\<rparr>),
           exampleBackend\<lparr>bs_config := Some exampleConfig\<rparr>)
      | ErrorOther m \<Rightarrow>
          (Inr (BackendFailure
                  \<lparr>be_message = (if m \<noteq> [] then m else ''Unknown error occurred''),
                   be_status = 500, be_data = None\<rparr>),
           exampleBackend\<lparr>bs_config := Some exampleConfig\<rparr>))"
proof -
  have url: "baseUrl exampleConfig @ signinEndpoint exampleConfig
               = ''https://backend.example/signin''"
    by (simp add: exampleConfig_def)
  have no_timeout: "backendTimeout exampleConfig = None"
    by (simp add: exampleConfig_def)
  show ?thesis
    by (simp add: authenticateUser_def example_ensureConfigLoaded example_constructor_lookup
        url no_timeout Let_def)
qed

section \<open>Sessions are single-use and typed\<close>

text \<open>
  C1. A completion call fails with \<open>SessionExpiredOrInvalid\<close> when the store returns
  no session for the session id or a session of the other ceremony. In particular,
  after a \<open>verifyRegistration\<close> that succeeded on a session id, any further
  \<open>verifyRegistration\<close> on that id fails so, whatever its other arguments and
  whenever it runs; and a session of type \<open>Registration\<close>, such as the one that
  \<open>generateRegistrationOptions\<close> stores, makes \<open>verifyAuthentication\<close> fail so.
\<close>

theorem completion_needs_live_session_of_its_type:
  "(KV_getChallenge now sid st = None
      \<or> (\<exists>s. KV_getChallenge now sid st = Some s \<and> cd_type (s_data s) \<noteq> Registration)
    \<longrightarrow> verifyRegistration svc rp pid now sid cred uid org plat st
          = (Inl (SessionExpiredOrInvalid Registration), st))
   \<and> (KV_getChallenge now sid st = None
      \<or> (\<exists>s. KV_getChallenge now sid st = Some s \<and> cd_type (s_data s) \<noteq> Authentication)
    \<longrightarrow> verifyAuthentication svc ap now sid cred org st
          = (Inl (SessionExpiredOrInvalid Authentication), st))
   \<and> (verifyRegistration svc rp pid now sid cred uid org plat st = (Inr r, st')
    \<longrightarrow> verifyRegistration svc' rp' pid' now' sid cred' uid' org' plat' st'
          = (Inl (SessionExpiredOrInvalid Registration), st'))
   \<and> (KV_getChallenge now sid st = Some s \<and> cd_type (s_data s) = Registration
    \<longrightarrow> verifyAuthentication svc ap now sid cred org st
          = (Inl (SessionExpiredOrInvalid Authentication), st))
   \<and> fst (verifyAuthentication svc ap now sid cred org
            (snd (generateRegistrationOptions svcB ch sid nowB uidB un dn platB stB)))
       = Inl (SessionExpiredOrInvalid Authentication)"
proof -
  have reg: "KV_getChallenge now sid st = None
      \<or> (\<exists>s. KV_getChallenge now sid st = Some s \<and> cd_type (s_data s) \<noteq> Registration)
    \<longrightarrow> verifyRegistration svc rp pid now sid cred uid org plat st
          = (Inl (SessionExpiredOrInvalid Registration), st)"
    by (auto simp: verifyRegistration_absent verifyRegistration_wrong_type)
  have auth: "KV_getChallenge now sid st = None
      \<or> (\<exists>s. KV_getChallenge now sid st = Some s \<and> cd_type (s_data s) \<noteq> Authentication)
    \<longrightarrow> verifyAuthentication svc ap now sid cred org st
          = (Inl (SessionExpiredOrInvalid Authentication), st)"
    by (auto simp: verifyAuthentication_absent verifyAuthentication_wrong_type)
  have twice: "verifyRegistration svc rp pid now sid cred uid org plat st = (Inr r, st')
    \<longrightarrow> verifyRegistration svc' rp' pid' now' sid cred' uid' org' plat' st'
          = (Inl (SessionExpiredOrInvalid Registration), st')"
  proof
    assume ok: "verifyRegistration svc rp pid now sid cred uid org plat st = (Inr r, st')"
    then obtain st2 where "st' = KV_deleteChallenge sid st2"
      using verifyRegistration_success_state by blast
    then have "KV_getChallenge now' sid st' = None"
      by (simp add: getChallenge_deleteChallenge)
    then show "verifyRegistration svc' rp' pid' now' sid cred' uid' org' plat' st'
          = (Inl (SessionExpiredOrInvalid Registration), st')"
      by (rule verifyRegistration_absent)
  qed
  have mistyped: "KV_getChallenge now sid st = Some s \<and> cd_type (s_data s) = Registration
    \<longrightarrow> verifyAuthentication svc ap now sid cred org st
          = (Inl (SessionExpiredOrInvalid Authentication), st)"
    using verifyAuthentication_wrong_type [of now sid st s svc ap cred org] by simp
  have created: "fst (verifyAuthentication svc ap now sid cred org
            (snd (generateRegistrationOptions svcB ch sid nowB uidB un dn platB stB)))
       = Inl (SessionExpiredOrInvalid Authentication)"
    using generateRegistrationOptions_session [of now sid svcB ch nowB uidB un dn platB stB]
    by (auto simp: verifyAuthentication_absent verifyAuthentication_wrong_type)
  from reg auth twice mistyped created show ?thesis by blast
qed

theorem completion_needs_live_session_of_its_type_witness:
  "verifyRegistration defaultService (\<lambda>req. Verified exampleInfo) ''p1'' 2000 ''s1''
     exampleCredential ''u1'' None ''android'' storeBegun
     = (Inr \<lparr>rr_verified = True, rr_passkeyId = ''p1'', rr_passkey = examplePasskeyData\<rparr>,
        storeRegistered)
   \<and> verifyRegistration defaultService (\<lambda>req. Verified exampleInfo) ''p2'' 2500 ''s1''
       exampleCredential ''u1'' None ''android'' storeRegistered
     = (Inl (SessionExpiredOrInvalid Registration), storeRegistered)
   \<and> KV_getChallenge 1500 ''s1'' storeBegun = Some exampleRegistrationSession
   \<and> verifyAuthentication defaultService (\<lambda>req. Verified 6) 1500 ''s1''
       exampleCredential None storeBegun
     = (Inl (SessionExpiredOrInvalid Authentication), storeBegun)
   \<and> KV_getChallenge 1500 ''s9'' storeBegun = None
   \<and> verifyRegistration defaultService (\<lambda>req. Verified exampleInfo) ''p1'' 1500 ''s9''
       exampleCredential ''u1'' None ''android'' storeBegun
     = (Inl (SessionExpiredOrInvalid Registration), storeBegun)"
proof -
  have live: "KV_getChallenge 1500 ''s1'' storeBegun = Some exampleRegistrationSession"
    by (simp add: example_defs kv_defs)
  have is_reg: "cd_type (s_data exampleRegistrationSession) = Registration"
    by (simp add: example_defs)
  have absent: "KV_getChallenge 1500 ''s9'' storeBegun = None"
    by (simp add: example_defs kv_defs)
  note first = example_verifyRegistration
  from completion_needs_live_session_of_its_type
         [where st = storeBegun and sid = "''s1''" and now = 2000 and r = "\<lparr>rr_verified = True, rr_passkeyId = ''p1'', rr_passkey = examplePasskeyData\<rparr>"
            and st' = storeRegistered and svc = defaultService
            and rp = "\<lambda>req. Verified exampleInfo" and pid = "''p1''" and cred = exampleCredential
            and uid = "''u1''" and org = None and plat = "''android''"
            and svc' = defaultService and rp' = "\<lambda>req. Verified exampleInfo"
            and pid' = "''p2''" and now' = 2500 and cred' = exampleCredential
            and uid' = "''u1''" and org' = None and plat' = "''android''"] first
  have second: "verifyRegistration defaultService (\<lambda>req. Verified exampleInfo) ''p2'' 2500 ''s1''
       exampleCredential ''u1'' None ''android'' storeRegistered
     = (Inl (SessionExpiredOrInvalid Registration), storeRegistered)"
    by simp
  from completion_needs_live_session_of_its_type
         [where st = storeBegun and sid = "''s1''" and now = 1500 and s = exampleRegistrationSession
            and svc = defaultService and ap = "\<lambda>req. Verified 6" and cred = exampleCredential
            and org = None] live is_reg
  have third: "verifyAuthentication defaultService (\<lambda>req. Verified 6) 1500 ''s1''
       exampleCredential None storeBegun
     = (Inl (SessionExpiredOrInvalid Authentication), storeBegun)"
    by simp
  from completion_needs_live_session_of_its_type
         [where st = storeBegun and sid = "''s9''" and now = 1500
            and svc = defaultService and rp = "\<lambda>req. Verified exampleInfo" and pid = "''p1''" and cred = exampleCredential
            and uid = "''u1''" and org = None and plat = "''android''"] absent
  have fourth: "verifyRegistration defaultService (\<lambda>req. Verified exampleInfo) ''p1'' 1500 ''s9''
       exampleCredential ''u1'' None ''android'' storeBegun
     = (Inl (SessionExpiredOrInvalid Registration), storeBegun)"
    by simp
  from first second live third absent fourth show ?thesis by blast
qed

text \<open>The two completion calls of the scenario with a primitive that does not verify.\<close>

lemma example_verifyRegistration_notVerified:
  "verifyRegistration defaultService (\<lambda>req. NotVerified) ''p1'' 2000 ''s1''
     exampleCredential ''u1'' None ''android'' storeBegun
   = (Inl RegistrationVerificationFailed, storeBegun)"
  by (simp add: verifyRegistration_def example_defs resolveExpectedOrigin_def
      defaultService_def Let_def kv_defs)

lemma example_verifyAuthentication_notVerified:
  "verifyAuthentication defaultService (\<lambda>req. NotVerified) 4000 ''s2''
     exampleCredential None storeAuthBegun
   = (Inl AuthenticationVerificationFailed, storeAuthBegun)"
  by (simp add: verifyAuthentication_def verifyAuthentication_afterGetChallenge_def
      example_defs resolveExpectedOrigin_def defaultService_def Let_def kv_defs)

lemma example_live_registration_session:
  "KV_getChallenge 2000 ''s1'' storeBegun = Some exampleRegistrationSession"
  by (simp add: example_defs kv_defs)

lemma example_live_authentication_session:
  "KV_getChallenge 4000 ''s2'' storeAuthBegun = Some exampleAuthenticationSession"
  by (simp add: example_defs kv_defs)

section \<open>Consuming a session\<close>




section \<open>Backend delegation after a successful authentication\<close>

text \<open>
  C3. The configuration has credentials for the users \<^verbatim>\<open>u7\<close>, \<^verbatim>\<open>10\<close> and \<^verbatim>\<open>2\<close>;
  the user \<^verbatim>\<open>constructor\<close> has none and is not among the configured user ids. When
  that user completes a sign-in, \<open>authenticateUser\<close> reads
  \<^verbatim>\<open>userCredentials['constructor']\<close>, finds the member every object inherits, and
  posts a sign-in request without username and password. The response has
  \<open>success = true\<close>, but its \<open>backendAuthentication\<close> is whatever the remote system
  answered: "Backend signin successful" with no warning when it answers 200, "Backend
  signin failed" when it answers 401; in neither case the message naming the missing
  user id or the list of the configured user ids. For the user \<^verbatim>\<open>u1\<close>, who has no
  credentials either, the same route gives \<open>success = false\<close> in
  \<open>backendAuthentication\<close>, the message naming \<^verbatim>\<open>u1\<close>, the configured user ids as
  \<^verbatim>\<open>Object.keys\<close> lists them, and the warning.
\<close>

theorem inherited_member_passes_for_credentials:
  "map_of (userCredentials exampleConfig) ''constructor'' = None
   \<and> ''constructor'' \<notin> set (objectKeys (userCredentials exampleConfig))
   \<and> loginComplete defaultService (\<lambda>req. Verified 6) answerOk 4000
        exampleBody None None (storeConstructorAuthBegun, exampleBackend)
     = (Json \<lparr>lr_success = True,
              lr_message = ''Authentication successful'',
              lr_user = \<lparr>us_userId = ''constructor'', us_username = Some ''a@b.com'',
                         us_passkeyId = ''p1''\<rparr>,
              lr_authenticatedAt = 4000,
              lr_backendAuthentication =
                Some \<lparr>ba_skipped = None, ba_success = Some True,
                      ba_message = ''Backend signin successful'',
                      ba_data = Some ''{}'', ba_status = Some 200, ba_error = None,
                      ba_availableUsers = None\<rparr>,
              lr_warning = None\<rparr>,
        storeConstructorAuthenticated, exampleBackend\<lparr>bs_config := Some exampleConfig\<rparr>)
   \<and> loginComplete defaultService (\<lambda>req. Verified 6) answerUnauthorized 4000
        exampleBody None None (storeConstructorAuthBegun, exampleBackend)
     = (Json \<lparr>lr_success = True,
              lr_message = ''Authentication successful'',
              lr_user = \<lparr>us_userId = ''constructor'', us_username = Some ''a@b.com'',
                         us_passkeyId = ''p1''\<rparr>,
              lr_authenticatedAt = 4000,
              lr_backendAuthentication =
                Some \<lparr>ba_skipped = None, ba_success = Some False,
                      ba_message = ''Backend signin failed'',
                      ba_data = None, ba_status = None,
                      ba_error =
                        Some (ErrorObject \<lparr>be_message = ''Authentication failed'',
                                            be_status = 401, be_data = Some ''{}''\<rparr>),
                      ba_availableUsers = None\<rparr>,
              lr_warning =
                Some ''Passkey authentication successful but backend signin failed''\<rparr>,
        storeConstructorAuthenticated, exampleBackend\<lparr>bs_config := Some exampleConfig\<rparr>)
   \<and> loginComplete defaultService (\<lambda>req. Verified 6) answerOk 4000
        exampleBody None None (storeAuthBegun, exampleBackend)
     = (Json \<lparr>lr_success = True,
              lr_message = ''Authentication successful'',
              lr_user = \<lparr>us_userId = ''u1'', us_username = Some ''a@b.com'',
                         us_passkeyId = ''p1''\<rparr>,
              lr_authenticatedAt = 4000,
              lr_backendAuthentication =
                Some \<lparr>ba_skipped = None, ba_success = Some False,
                      ba_message = ''No backend credentials configured for user: u1'',
                      ba_data = None, ba_status = None, ba_error = None,
                      ba_availableUsers = Some [''2'', ''10'', ''u7'']\<rparr>,
              lr_warning =
                Some ''Passkey authentication successful but no backend credentials configured''\<rparr>,
        storeAuthenticated, exampleBackend\<lparr>bs_config := Some exampleConfig\<rparr>)"
proof -
  have ok: "loginComplete defaultService (\<lambda>req. Verified 6) answerOk 4000
        exampleBody None None (storeConstructorAuthBegun, exampleBackend)
     = (Json \<lparr>lr_success = True,
              lr_message = ''Authentication successful'',
              lr_user = \<lparr>us_userId = ''constructor'', us_username = Some ''a@b.com'',
                         us_passkeyId = ''p1''\<rparr>,
              lr_authenticatedAt = 4000,
              lr_backendAuthentication =
                Some \<lparr>ba_skipped = None, ba_success = Some True,
                      ba_message = ''Backend signin successful'',
                      ba_data = Some ''{}'', ba_status = Some 200, ba_error = None,
                      ba_availableUsers = None\<rparr>,
              lr_warning = None\<rparr>,
        storeConstructorAuthenticated, exampleBackend\<lparr>bs_config := Some exampleConfig\<rparr>)"
    by (simp add: loginComplete_def exampleBody_def or_else_def Let_def
        example_constructor_verifyAuthentication respondAuthenticated_def
        example_constructor_request answerOk_def backendAuthenticationMessage_def)
  have unauthorized: "loginComplete defaultService (\<lambda>req. Verified 6) answerUnauthorized 4000
        exampleBody None None (storeConstructorAuthBegun, exampleBackend)
     = (Json \<lparr>lr_success = True,
              lr_message = ''Authentication successful'',
              lr_user = \<lparr>us_userId = ''constructor'', us_username = Some ''a@b.com'',
                         us_passkeyId = ''p1''\<rparr>,
              lr_authenticatedAt = 4000,
              lr_backendAuthentication =
                Some \<lparr>ba_skipped = None, ba_success = Some False,
                      ba_message = ''Backend signin failed'',
                      ba_data = None, ba_status = None,
                      ba_error =
                        Some (ErrorObject \<lparr>be_message = ''Authentication failed'',
                                            be_status = 401, be_data = Some ''{}''\<rparr>),
                      ba_availableUsers = None\<rparr>,
              lr_warning =
                Some ''Passkey authentication successful but backend signin failed''\<rparr>,
        storeConstructorAuthenticated, exampleBackend\<lparr>bs_config := Some exampleConfig\<rparr>)"
    by (simp add: loginComplete_def exampleBody_def or_else_def Let_def
        example_constructor_verifyAuthentication respondAuthenticated_def
        example_constructor_request answerUnauthorized_def backendAuthenticationMessage_def)
  have verified: "ar_verified exampleAuthenticationResult"
    by (simp add: exampleAuthenticationResult_def)
  have missing: "js_property (userCredentials exampleConfig)
                   (ar_userId exampleAuthenticationResult) = None"
    by (simp add: exampleAuthenticationResult_def example_no_credentials)
  have loaded: "bs_config (exampleBackend\<lparr>bs_config := Some exampleConfig\<rparr>) = Some exampleConfig"
    by simp
  have contrast: "loginComplete defaultService (\<lambda>req. Verified 6) answerOk 4000
        exampleBody None None (storeAuthBegun, exampleBackend)
     = (Json \<lparr>lr_success = True,
              lr_message = ''Authentication successful'',
              lr_user = \<lparr>us_userId = ''u1'', us_username = Some ''a@b.com'',
                         us_passkeyId = ''p1''\<rparr>,
              lr_authenticatedAt = 4000,
              lr_backendAuthentication =
                Some \<lparr>ba_skipped = None, ba_success = Some False,
                      ba_message = ''No backend credentials configured for user: u1'',
                      ba_data = None, ba_status = None, ba_error = None,
                      ba_availableUsers = Some [''2'', ''10'', ''u7'']\<rparr>,
              lr_warning =
                Some ''Passkey authentication successful but no backend credentials configured''\<rparr>,
        storeAuthenticated, exampleBackend\<lparr>bs_config := Some exampleConfig\<rparr>)"
    using respondAuthenticated_no_credentials
            [OF verified _ example_ensureConfigLoaded loaded missing, of False answerOk 4000]
    by (simp add: loginComplete_def exampleBody_def or_else_def Let_def
        example_verifyAuthentication example_objectKeys exampleAuthenticationResult_def)
  from example_constructor_not_configured ok unauthorized contrast show ?thesis by blast
qed

section \<open>Verification gates every credential write\<close>

text \<open>
  C4. When \<open>verifyRegistration\<close> or \<open>verifyAuthentication\<close> fails, whether an earlier
  check failed or the primitive reported not-verified or threw, the stored passkeys and
  users are exactly those from before the call: no credential is created and no field
  of a stored credential changes. Conversely, whenever a call leaves the stored
  passkeys different, the primitive returned verified on the request built from the
  caller's credential response.
\<close>

theorem failed_completion_persists_no_credential:
  "(verifyRegistration svc rp pid now sid cred uid org plat st = (Inl e, st')
    \<longrightarrow> kv_passkeys st' = kv_passkeys st \<and> kv_users st' = kv_users st)
   \<and> (verifyAuthentication svc ap now sid cred org st = (Inl e, st')
    \<longrightarrow> kv_passkeys st' = kv_passkeys st \<and> kv_users st' = kv_users st)
   \<and> (verifyRegistration svc rp pid now sid cred uid org plat st = (res, st')
      \<and> kv_passkeys st' \<noteq> kv_passkeys st
    \<longrightarrow> (\<exists>request info. rv_response request = cred \<and> rp request = Verified info))
   \<and> (verifyAuthentication svc ap now sid cred org st = (resa, st')
      \<and> kv_passkeys st' \<noteq> kv_passkeys st
    \<longrightarrow> (\<exists>request n. av_response request = cred \<and> ap request = Verified n))"
proof -
  have reg_fail: "verifyRegistration svc rp pid now sid cred uid org plat st = (Inl e, st')
    \<longrightarrow> kv_passkeys st' = kv_passkeys st \<and> kv_users st' = kv_users st"
    using verifyRegistration_failure_state [of svc rp pid now sid cred uid org plat st e st']
    by auto
  have auth_fail: "verifyAuthentication svc ap now sid cred org st = (Inl e, st')
    \<longrightarrow> kv_passkeys st' = kv_passkeys st \<and> kv_users st' = kv_users st"
    using verifyAuthentication_failure_state [of svc ap now sid cred org st e st']
    by auto
  have reg_gate: "verifyRegistration svc rp pid now sid cred uid org plat st = (res, st')
      \<and> kv_passkeys st' \<noteq> kv_passkeys st
    \<longrightarrow> (\<exists>request info. rv_response request = cred \<and> rp request = Verified info)"
  proof
    assume h: "verifyRegistration svc rp pid now sid cred uid org plat st = (res, st')
      \<and> kv_passkeys st' \<noteq> kv_passkeys st"
    show "\<exists>request info. rv_response request = cred \<and> rp request = Verified info"
    proof (cases res)
      case (Inl err)
      with h verifyRegistration_failure_state [of svc rp pid now sid cred uid org plat st err st']
      show ?thesis by auto
    next
      case (Inr r)
      with h have "verifyRegistration svc rp pid now sid cred uid org plat st = (Inr r, st')"
        by simp
      from verifyRegistration_success [OF this] obtain s :: session and eo info where
        "rp \<lparr>rv_response = cred, rv_expectedChallenge = cd_challenge (s_data s),
             rv_expectedOrigin = eo, rv_expectedRPID = rpID svc\<rparr> = Verified info"
        by blast
      then show ?thesis
        by (intro exI [of _ "\<lparr>rv_response = cred, rv_expectedChallenge = cd_challenge (s_data s),
             rv_expectedOrigin = eo, rv_expectedRPID = rpID svc\<rparr>"] exI [of _ info]) simp
    qed
  qed
  have auth_gate: "verifyAuthentication svc ap now sid cred org st = (resa, st')
      \<and> kv_passkeys st' \<noteq> kv_passkeys st
    \<longrightarrow> (\<exists>request n. av_response request = cred \<and> ap request = Verified n)"
  proof
    assume h: "verifyAuthentication svc ap now sid cred org st = (resa, st')
      \<and> kv_passkeys st' \<noteq> kv_passkeys st"
    show "\<exists>request n. av_response request = cred \<and> ap request = Verified n"
    proof (cases resa)
      case (Inl err)
      with h verifyAuthentication_failure_state [of svc ap now sid cred org st err st']
      show ?thesis by auto
    next
      case (Inr r)
      with h have "verifyAuthentication svc ap now sid cred org st = (Inr r, st')"
        by simp
      from verifyAuthentication_success [OF this] obtain s :: session and p :: passkey and eo n where
        "ap \<lparr>av_response = cred, av_expectedChallenge = cd_challenge (s_data s),
                av_expectedOrigin = eo, av_expectedRPID = rpID svc,
                av_authenticator =
                  \<lparr>au_credentialID = pd_credentialID (pk_data p),
                   au_credentialPublicKey = pd_credentialPublicKey (pk_data p),
                   au_counter = pd_counter (pk_data p),
                   au_transports = pd_transports (pk_data p)\<rparr>\<rparr> = Verified n"
        by blast
      then show ?thesis
        by (intro exI [of _ "\<lparr>av_response = cred, av_expectedChallenge = cd_challenge (s_data s),
                av_expectedOrigin = eo, av_expectedRPID = rpID svc,
                av_authenticator =
                  \<lparr>au_credentialID = pd_credentialID (pk_data p),
                   au_credentialPublicKey = pd_credentialPublicKey (pk_data p),
                   au_counter = pd_counter (pk_data p),
                   au_transports = pd_transports (pk_data p)\<rparr>\<rparr>"] exI [of _ n]) simp
    qed
  qed
  from reg_fail auth_fail reg_gate auth_gate show ?thesis by blast
qed

theorem failed_completion_persists_no_credential_witness:
  "verifyRegistration defaultService (\<lambda>req. NotVerified) ''p1'' 2000 ''s1''
     exampleCredential ''u1'' None ''android'' storeBegun
     = (Inl RegistrationVerificationFailed, storeBegun)
   \<and> kv_passkeys storeBegun = []
   \<and> verifyAuthentication defaultService (\<lambda>req. NotVerified) 4000 ''s2''
       exampleCredential None storeAuthBegun
     = (Inl AuthenticationVerificationFailed, storeAuthBegun)
   \<and> kv_passkeys storeAuthBegun = [(''p1'', examplePasskey)]
   \<and> kv_passkeys storeRegistered \<noteq> kv_passkeys storeBegun
   \<and> (\<exists>(request :: registration_verify_request) info. rv_response request = exampleCredential
         \<and> (\<lambda>req. Verified exampleInfo) request = Verified info)
   \<and> kv_passkeys storeAuthenticated \<noteq> kv_passkeys storeAuthBegun
   \<and> (\<exists>(request :: authentication_verify_request) n. av_response request = exampleCredential
         \<and> (\<lambda>req. Verified (6::nat)) request = Verified n)"
proof -
  note inst = failed_completion_persists_no_credential
  note reg_fail = inst [THEN conjunct1, rule_format]
  note auth_fail = inst [THEN conjunct2, THEN conjunct1, rule_format]
  note reg_gate = inst [THEN conjunct2, THEN conjunct2, THEN conjunct1, rule_format]
  note auth_gate = inst [THEN conjunct2, THEN conjunct2, THEN conjunct2, rule_format]
  have a: "kv_passkeys storeBegun = kv_passkeys storeBegun
             \<and> kv_users storeBegun = kv_users storeBegun"
    by (rule reg_fail [OF example_verifyRegistration_notVerified])
  have b: "kv_passkeys storeAuthBegun = kv_passkeys storeAuthBegun
             \<and> kv_users storeAuthBegun = kv_users storeAuthBegun"
    by (rule auth_fail [OF example_verifyAuthentication_notVerified])
  have changed_reg: "kv_passkeys storeRegistered \<noteq> kv_passkeys storeBegun"
    by (simp add: storeRegistered_def storeBegun_def)
  have changed_auth: "kv_passkeys storeAuthenticated \<noteq> kv_passkeys storeAuthBegun"
    by (simp add: storeAuthenticated_def storeAuthBegun_def examplePasskey_def
        examplePasskeyData_def)
  have c: "\<exists>(request :: registration_verify_request) info. rv_response request = exampleCredential
         \<and> (\<lambda>req. Verified exampleInfo) request = Verified info"
    by (rule reg_gate [OF conjI [OF example_verifyRegistration changed_reg]])
  have d: "\<exists>(request :: authentication_verify_request) n. av_response request = exampleCredential
         \<and> (\<lambda>req. Verified (6::nat)) request = Verified n"
    by (rule auth_gate [OF conjI [OF example_verifyAuthentication changed_auth]])
  have e: "kv_passkeys storeBegun = []"
    by (simp add: storeBegun_def)
  have f: "kv_passkeys storeAuthBegun = [(''p1'', examplePasskey)]"
    by (simp add: storeAuthBegun_def)
  from c d e f changed_reg changed_auth
    example_verifyRegistration_notVerified example_verifyAuthentication_notVerified
  show ?thesis by blast
qed

section \<open>The allow-list of an authentication\<close>

text \<open>
  C5, as the specification states it, fails: with the user id omitted
  \<open>generateAuthenticationOptions\<close> does not leave the allow-list empty. On the store
  with one registered passkey it lists that passkey.
\<close>

theorem usernameless_allow_list_lists_all_passkeys:
  "ao_allowCredentials
     (fst (fst (generateAuthenticationOptions defaultService ''c2'' ''s2'' 3000
                  None ''android'' storeRegistered)))
   = Some [exampleDescriptor]"
  by (simp add: generateAuthenticationOptions_def descriptor_def getTransportsForPlatform_def
      toLowerCase_android exampleDescriptor_def example_defs defaultService_def Let_def kv_defs)

text \<open>
  C5, amended. With the user id omitted (or empty) the allow-list holds every stored
  passkey; with a user id it holds exactly the stored passkeys of that user. Each entry
  is the passkey's credential id with its transports adapted to the platform (its own
  transports, or the platform's default order when it declares none). The allow-list is
  unset only when there is nothing to list.
\<close>

theorem allow_list_of_authentication_options:
  "ao_allowCredentials
     (fst (fst (generateAuthenticationOptions svc ch sid now userId plat st)))
   = (let listed =
            (if truthy userId
             then filter (\<lambda>p. Some (pd_userId (pk_data p)) = userId) (KV_getPasskeys None st)
             else KV_getPasskeys None st)
      in if listed = [] then None else Some (map (descriptor plat) listed))
   \<and> cdesc_id (descriptor plat p) = pd_credentialID (pk_data p)
   \<and> cdesc_transports (descriptor plat p)
       = getTransportsForPlatform (pd_transports (pk_data p)) plat
   \<and> KV_getPasskeys None st
       = List.map_filter (kv_get (kv_passkeys st)) (kv_keys (kv_passkeys st))"
proof -
  have allow: "ao_allowCredentials
     (fst (fst (generateAuthenticationOptions svc ch sid now userId plat st)))
   = (let listed =
            (if truthy userId
             then filter (\<lambda>p. Some (pd_userId (pk_data p)) = userId) (KV_getPasskeys None st)
             else KV_getPasskeys None st)
      in if listed = [] then None else Some (map (descriptor plat) listed))"
    by (simp add: generateAuthenticationOptions_def Let_def getPasskeys_of_user [of userId st])
  have all: "KV_getPasskeys None st
       = List.map_filter (kv_get (kv_passkeys st)) (kv_keys (kv_passkeys st))"
    by (simp add: KV_getPasskeys_def)
  from allow all show ?thesis by (simp add: descriptor_def)
qed

theorem allow_list_of_authentication_options_witness:
  "ao_allowCredentials
     (fst (fst (generateAuthenticationOptions defaultService ''c3'' ''s3'' 3000
                  (Some ''u2'') ''ios'' storeTwoUsers)))
     = Some [\<lparr>cdesc_id = ''cred-2'', cdesc_type = ''public-key'',
              cdesc_transports = [''internal'', ''hybrid'']\<rparr>]
   \<and> ao_allowCredentials
       (fst (fst (generateAuthenticationOptions defaultService ''c3'' ''s3'' 3000
                    None ''ios'' storeTwoUsers)))
     = Some [exampleDescriptor,
             \<lparr>cdesc_id = ''cred-2'', cdesc_type = ''public-key'',
              cdesc_transports = [''internal'', ''hybrid'']\<rparr>]
   \<and> ao_allowCredentials
       (fst (fst (generateAuthenticationOptions defaultService ''c3'' ''s3'' 3000
                    (Some ''u3'') ''ios'' storeTwoUsers)))
     = None"
proof -
  have all: "KV_getPasskeys None storeTwoUsers = [examplePasskey, otherPasskey]"
    by (simp add: storeTwoUsers_def kv_defs)
  have d1: "descriptor ''ios'' examplePasskey = exampleDescriptor"
    by (simp add: descriptor_def exampleDescriptor_def examplePasskey_def
        examplePasskeyData_def getTransportsForPlatform_def toLowerCase_ios)
  have d2: "descriptor ''ios'' otherPasskey
      = \<lparr>cdesc_id = ''cred-2'', cdesc_type = ''public-key'',
              cdesc_transports = [''internal'', ''hybrid'']\<rparr>"
    by (simp add: descriptor_def otherPasskey_def
        examplePasskeyData_def getTransportsForPlatform_def toLowerCase_ios)
  have u1: "pd_userId (pk_data examplePasskey) = ''u1''"
    by (simp add: examplePasskey_def examplePasskeyData_def)
  have u2: "pd_userId (pk_data otherPasskey) = ''u2''"
    by (simp add: otherPasskey_def examplePasskeyData_def)
  note inst = allow_list_of_authentication_options [THEN conjunct1]
  have a: "ao_allowCredentials
     (fst (fst (generateAuthenticationOptions defaultService ''c3'' ''s3'' 3000
                  (Some ''u2'') ''ios'' storeTwoUsers)))
     = Some [\<lparr>cdesc_id = ''cred-2'', cdesc_type = ''public-key'',
              cdesc_transports = [''internal'', ''hybrid'']\<rparr>]"
    by (simp add: inst all d1 d2 u1 u2 Let_def)
  have b: "ao_allowCredentials
       (fst (fst (generateAuthenticationOptions defaultService ''c3'' ''s3'' 3000
                    None ''ios'' storeTwoUsers)))
     = Some [exampleDescriptor,
             \<lparr>cdesc_id = ''cred-2'', cdesc_type = ''public-key'',
              cdesc_transports = [''internal'', ''hybrid'']\<rparr>]"
    by (simp add: inst all d1 d2 u1 u2 Let_def)
  have c: "ao_allowCredentials
       (fst (fst (generateAuthenticationOptions defaultService ''c3'' ''s3'' 3000
                    (Some ''u3'') ''ios'' storeTwoUsers)))
     = None"
    by (simp add: inst all d1 d2 u1 u2 Let_def)
  from a b c show ?thesis by blast
qed

section \<open>\<open>createdAt\<close> of a stored passkey\<close>

text \<open>
  C6. The passkey \<^verbatim>\<open>p1\<close> was created at time 2000. Saving it again at time 4000, as
  \<open>verifyAuthentication\<close> does to write the new counter, stores \<open>createdAt = 4000\<close>,
  in the key-value store and in the file-backed store alike: \<open>savePasskey\<close> writes
  the current time into \<open>createdAt\<close> on every call. \<open>KV_saveUser\<close>, beside it, keeps
  the \<open>createdAt\<close> of the record that exists.
\<close>

theorem savePasskey_resets_createdAt:
  "map_option pk_createdAt (KV_getPasskeyById ''p1'' storeAuthBegun) = Some 2000
   \<and> map_option pk_createdAt
        (KV_getPasskeyById ''p1''
           (KV_savePasskey 4000 ''p1'' (examplePasskeyData\<lparr>pd_counter := 6\<rparr>) storeAuthBegun))
       = Some 4000
   \<and> map_option pk_createdAt
        (KV_getPasskeyById ''p1''
           (snd (verifyAuthentication defaultService (\<lambda>req. Verified 6) 4000 ''s2''
                   exampleCredential None storeAuthBegun)))
       = Some 4000
   \<and> map_option pk_createdAt (JSON_getPasskeyById ''p1'' jsonStoreRegistered) = Some 2000
   \<and> map_option pk_createdAt
        (JSON_getPasskeyById ''p1''
           (snd (JSON_savePasskey 4000 ''p1'' (examplePasskeyData\<lparr>pd_counter := 6\<rparr>)
                   jsonStoreRegistered)))
       = Some 4000
   \<and> map_option u_createdAt
        (KV_getUser ''u1''
           (KV_saveUser 4000 ''u1''
              \<lparr>ud_username = Some ''a@b.com'', ud_displayName = Some ''A''\<rparr> storeAuthBegun))
       = Some 2000"
proof -
  have a: "map_option pk_createdAt (KV_getPasskeyById ''p1'' storeAuthBegun) = Some 2000"
    by (simp add: example_defs kv_defs)
  have b: "map_option pk_createdAt
        (KV_getPasskeyById ''p1''
           (KV_savePasskey 4000 ''p1'' (examplePasskeyData\<lparr>pd_counter := 6\<rparr>) storeAuthBegun))
       = Some 4000"
    by (simp add: example_defs kv_defs)
  have c: "map_option pk_createdAt
        (KV_getPasskeyById ''p1''
           (snd (verifyAuthentication defaultService (\<lambda>req. Verified 6) 4000 ''s2''
                   exampleCredential None storeAuthBegun)))
       = Some 4000"
    by (simp add: example_verifyAuthentication storeAuthenticated_def kv_defs)
  have d: "map_option pk_createdAt (JSON_getPasskeyById ''p1'' jsonStoreRegistered) = Some 2000"
    by (simp add: jsonStoreRegistered_def JSON_getPasskeyById_def examplePasskey_def)
  have e: "map_option pk_createdAt
        (JSON_getPasskeyById ''p1''
           (snd (JSON_savePasskey 4000 ''p1'' (examplePasskeyData\<lparr>pd_counter := 6\<rparr>)
                   jsonStoreRegistered)))
       = Some 4000"
    by (simp add: jsonStoreRegistered_def JSON_getPasskeyById_def JSON_savePasskey_def)
  have f: "map_option u_createdAt
        (KV_getUser ''u1''
           (KV_saveUser 4000 ''u1''
              \<lparr>ud_username = Some ''a@b.com'', ud_displayName = Some ''A''\<rparr> storeAuthBegun))
       = Some 2000"
    by (simp add: example_defs kv_defs Let_def)
  from a b c d e f show ?thesis by blast
qed

section \<open>Origin validation\<close>

text \<open>
  C7. \<open>isValidOrigin\<close> holds exactly for a member of the configured allow-list, for an
  origin with the prefix \<^verbatim>\<open>android:apk-key-hash:\<close> on Android, with the prefix
  \<^verbatim>\<open>ios:bundle-id:\<close> on iOS, and with the prefix \<^verbatim>\<open>http://\<close> or \<^verbatim>\<open>https://\<close> on
  the web; nothing else is accepted. The three examples of the specification follow:
  the iOS bundle origin is accepted on iOS, \<^verbatim>\<open>http://evil.com\<close> is accepted on iOS
  only as a member of the allow-list (so not with the constructor's list), and
  \<^verbatim>\<open>https://good.com\<close> is accepted on the web.
\<close>

theorem isValidOrigin_exact:
  "(isValidOrigin svc org platform \<longleftrightarrow>
      org \<in> set (allowedOrigins svc)
      \<or> (toLowerCase platform = ''android'' \<and> startsWith org ''android:apk-key-hash:'')
      \<or> (toLowerCase platform = ''ios'' \<and> startsWith org ''ios:bundle-id:'')
      \<or> (toLowerCase platform = ''web''
           \<and> (startsWith org ''http://'' \<or> startsWith org ''https://'')))
   \<and> isValidOrigin svc ''ios:bundle-id:com.x.y'' ''ios''
   \<and> (isValidOrigin svc ''http://evil.com'' ''ios''
        \<longleftrightarrow> ''http://evil.com'' \<in> set (allowedOrigins svc))
   \<and> \<not> isValidOrigin defaultService ''http://evil.com'' ''ios''
   \<and> isValidOrigin svc ''https://good.com'' ''web''"
proof -
  have general: "isValidOrigin svc org platform \<longleftrightarrow>
      org \<in> set (allowedOrigins svc)
      \<or> (toLowerCase platform = ''android'' \<and> startsWith org ''android:apk-key-hash:'')
      \<or> (toLowerCase platform = ''ios'' \<and> startsWith org ''ios:bundle-id:'')
      \<or> (toLowerCase platform = ''web''
           \<and> (startsWith org ''http://'' \<or> startsWith org ''https://''))"
    by (auto simp: isValidOrigin_def Let_def)
  have ios_ok: "isValidOrigin svc ''ios:bundle-id:com.x.y'' ''ios''"
    by (simp add: isValidOrigin_def Let_def toLowerCase_ios startsWith_def)
  have evil: "isValidOrigin svc ''http://evil.com'' ''ios''
        \<longleftrightarrow> ''http://evil.com'' \<in> set (allowedOrigins svc)"
    by (simp add: isValidOrigin_def Let_def toLowerCase_ios startsWith_def)
  have evil_default: "\<not> isValidOrigin defaultService ''http://evil.com'' ''ios''"
    by (simp add: isValidOrigin_def Let_def toLowerCase_ios startsWith_def defaultService_def)
  have web_ok: "isValidOrigin svc ''https://good.com'' ''web''"
    by (simp add: isValidOrigin_def Let_def toLowerCase_web startsWith_def)
  from general ios_ok evil evil_default web_ok show ?thesis by blast
qed

section \<open>Expired sessions\<close>

text \<open>
  C8. A stored session whose expiry time, \<open>createdAt\<close> plus five minutes, has passed is
  not returned: \<open>KV_getChallenge\<close> yields nothing, as it does on the store from which
  the session has been deleted, and both completion operations fail with
  \<open>SessionExpiredOrInvalid\<close>, with the same outcome as on that store. The file-backed
  \<open>JSON_getChallenge\<close> yields nothing as well. None of this depends on a sweep: the
  answers are the same on the store as it is and on the store after
  \<open>cleanupExpiredSessions\<close>. Both \<open>saveChallenge\<close> operations store a session with this
  expiry time, which is also the deadline of the key-value entry.
\<close>

theorem expired_session_is_absent:
  "(map_of (kv_sessions st) sid = Some (s, s_createdAt s + 5 * 60 * 1000)
      \<and> s_createdAt s + 5 * 60 * 1000 < now
    \<longrightarrow> KV_getChallenge now sid st = None
        \<and> KV_getChallenge now sid st = KV_getChallenge now sid (KV_deleteChallenge sid st)
        \<and> KV_getChallenge now sid (snd (KV_cleanupExpiredSessions st)) = None
        \<and> fst (verifyRegistration svc rp pid now sid cred uid org plat st)
            = Inl (SessionExpiredOrInvalid Registration)
        \<and> fst (verifyRegistration svc rp pid now sid cred uid org plat st)
            = fst (verifyRegistration svc rp pid now sid cred uid org plat
                     (KV_deleteChallenge sid st))
        \<and> fst (verifyAuthentication svc ap now sid cred org st)
            = Inl (SessionExpiredOrInvalid Authentication)
        \<and> fst (verifyAuthentication svc ap now sid cred org st)
            = fst (verifyAuthentication svc ap now sid cred org (KV_deleteChallenge sid st)))
   \<and> (map_of (sessionFile js) sid = Some s
      \<and> s_expiresAt s = s_createdAt s + 5 * 60 * 1000
      \<and> s_createdAt s + 5 * 60 * 1000 < now
    \<longrightarrow> fst (JSON_getChallenge now sid js) = None
        \<and> fst (JSON_getChallenge now sid js)
            = fst (JSON_getChallenge now sid (snd (JSON_deleteChallenge sid js)))
        \<and> fst (JSON_getChallenge now sid (snd (JSON_cleanupExpiredSessions now js))) = None)
   \<and> map_of (kv_sessions (KV_saveChallenge t sid cd st)) sid
       = Some (\<lparr>s_data = cd, s_createdAt = t, s_expiresAt = t + 5 * 60 * 1000\<rparr>,
               t + 5 * 60 * 1000)
   \<and> map_of (sessionFile (snd (JSON_saveChallenge t sid cd js))) sid
       = Some \<lparr>s_data = cd, s_createdAt = t, s_expiresAt = t + 5 * 60 * 1000\<rparr>"
proof -
  have kv: "map_of (kv_sessions st) sid = Some (s, s_createdAt s + 5 * 60 * 1000)
      \<and> s_createdAt s + 5 * 60 * 1000 < now
    \<longrightarrow> KV_getChallenge now sid st = None
        \<and> KV_getChallenge now sid st = KV_getChallenge now sid (KV_deleteChallenge sid st)
        \<and> KV_getChallenge now sid (snd (KV_cleanupExpiredSessions st)) = None
        \<and> fst (verifyRegistration svc rp pid now sid cred uid org plat st)
            = Inl (SessionExpiredOrInvalid Registration)
        \<and> fst (verifyRegistration svc rp pid now sid cred uid org plat st)
            = fst (verifyRegistration svc rp pid now sid cred uid org plat
                     (KV_deleteChallenge sid st))
        \<and> fst (verifyAuthentication svc ap now sid cred org st)
            = Inl (SessionExpiredOrInvalid Authentication)
        \<and> fst (verifyAuthentication svc ap now sid cred org st)
            = fst (verifyAuthentication svc ap now sid cred org (KV_deleteChallenge sid st))"
  proof
    assume h: "map_of (kv_sessions st) sid = Some (s, s_createdAt s + 5 * 60 * 1000)
      \<and> s_createdAt s + 5 * 60 * 1000 < now"
    then have none: "KV_getChallenge now sid st = None"
      using KV_getChallenge_expired [of st sid s "s_createdAt s + 5 * 60 * 1000" now] by simp
    have del: "KV_getChallenge now sid (KV_deleteChallenge sid st) = None"
      by (rule getChallenge_deleteChallenge)
    have sweep: "KV_getChallenge now sid (snd (KV_cleanupExpiredSessions st)) = None"
      using none by (simp add: KV_cleanupExpiredSessions_def)
    show "KV_getChallenge now sid st = None
        \<and> KV_getChallenge now sid st = KV_getChallenge now sid (KV_deleteChallenge sid st)
        \<and> KV_getChallenge now sid (snd (KV_cleanupExpiredSessions st)) = None
        \<and> fst (verifyRegistration svc rp pid now sid cred uid org plat st)
            = Inl (SessionExpiredOrInvalid Registration)
        \<and> fst (verifyRegistration svc rp pid now sid cred uid org plat st)
            = fst (verifyRegistration svc rp pid now sid cred uid org plat
                     (KV_deleteChallenge sid st))
        \<and> fst (verifyAuthentication svc ap now sid cred org st)
            = Inl (SessionExpiredOrInvalid Authentication)
        \<and> fst (verifyAuthentication svc ap now sid cred org st)
            = fst (verifyAuthentication svc ap now sid cred org (KV_deleteChallenge sid st))"
      using none del sweep
      by (simp add: verifyRegistration_absent verifyAuthentication_absent)
  qed
  have json: "map_of (sessionFile js) sid = Some s
      \<and> s_expiresAt s = s_createdAt s + 5 * 60 * 1000
      \<and> s_createdAt s + 5 * 60 * 1000 < now
    \<longrightarrow> fst (JSON_getChallenge now sid js) = None
        \<and> fst (JSON_getChallenge now sid js)
            = fst (JSON_getChallenge now sid (snd (JSON_deleteChallenge sid js)))
        \<and> fst (JSON_getChallenge now sid (snd (JSON_cleanupExpiredSessions now js))) = None"
  proof
    assume h: "map_of (sessionFile js) sid = Some s
      \<and> s_expiresAt s = s_createdAt s + 5 * 60 * 1000
      \<and> s_createdAt s + 5 * 60 * 1000 < now"
    then have stored: "map_of (sessionFile js) sid = Some s" and late: "s_expiresAt s < now"
      by simp_all
    show "fst (JSON_getChallenge now sid js) = None
        \<and> fst (JSON_getChallenge now sid js)
            = fst (JSON_getChallenge now sid (snd (JSON_deleteChallenge sid js)))
        \<and> fst (JSON_getChallenge now sid (snd (JSON_cleanupExpiredSessions now js))) = None"
      using JSON_getChallenge_expired [OF stored late] JSON_getChallenge_absent [of now sid js]
        cleanup_then_getChallenge [OF stored late]
      by simp
  qed
  have kv_save: "map_of (kv_sessions (KV_saveChallenge t sid cd st)) sid
       = Some (\<lparr>s_data = cd, s_createdAt = t, s_expiresAt = t + 5 * 60 * 1000\<rparr>,
               t + 5 * 60 * 1000)"
    by (simp add: KV_saveChallenge_def kv_set_ex_def update_conv' Let_def)
  have json_save: "map_of (sessionFile (snd (JSON_saveChallenge t sid cd js))) sid
       = Some \<lparr>s_data = cd, s_createdAt = t, s_expiresAt = t + 5 * 60 * 1000\<rparr>"
    by (simp add: JSON_saveChallenge_def update_conv')
  from kv json kv_save json_save show ?thesis by blast
qed

theorem expired_session_is_absent_witness:
  "KV_getChallenge 301001 ''s1'' storeBegun = None
   \<and> KV_getChallenge 301000 ''s1'' storeBegun = Some exampleRegistrationSession
   \<and> fst (verifyRegistration defaultService (\<lambda>req. Verified exampleInfo) ''p1'' 301001 ''s1''
            exampleCredential ''u1'' None ''android'' storeBegun)
       = Inl (SessionExpiredOrInvalid Registration)
   \<and> fst (verifyAuthentication defaultService (\<lambda>req. Verified 6) 301001 ''s1''
            exampleCredential None storeBegun)
       = Inl (SessionExpiredOrInvalid Authentication)
   \<and> fst (JSON_getChallenge 301001 ''s1'' jsonStoreBegun) = None
   \<and> fst (JSON_getChallenge 301001 ''s1''
            (snd (JSON_cleanupExpiredSessions 301001 jsonStoreBegun))) = None
   \<and> fst (JSON_getChallenge 301000 ''s1'' jsonStoreBegun) = Some exampleRegistrationSession"
proof -
  note kv = expired_session_is_absent [THEN conjunct1, rule_format]
  note json = expired_session_is_absent [THEN conjunct2, THEN conjunct1, rule_format]
  have kv_h: "map_of (kv_sessions storeBegun) ''s1''
                = Some (exampleRegistrationSession,
                        s_createdAt exampleRegistrationSession + 5 * 60 * 1000)
              \<and> s_createdAt exampleRegistrationSession + 5 * 60 * 1000 < 301001"
    by (simp add: storeBegun_def exampleRegistrationSession_def)
  have json_h: "map_of (sessionFile jsonStoreBegun) ''s1'' = Some exampleRegistrationSession
      \<and> s_expiresAt exampleRegistrationSession
          = s_createdAt exampleRegistrationSession + 5 * 60 * 1000
      \<and> s_createdAt exampleRegistrationSession + 5 * 60 * 1000 < 301001"
    by (simp add: jsonStoreBegun_def exampleRegistrationSession_def)
  have live_kv: "KV_getChallenge 301000 ''s1'' storeBegun = Some exampleRegistrationSession"
    by (simp add: example_defs kv_defs)
  have live_json: "fst (JSON_getChallenge 301000 ''s1'' jsonStoreBegun)
                     = Some exampleRegistrationSession"
    by (simp add: jsonStoreBegun_def exampleRegistrationSession_def JSON_getChallenge_def)
  from kv [OF kv_h, of defaultService "\<lambda>req. Verified exampleInfo" "''p1''" exampleCredential
             "''u1''" None "''android''" "\<lambda>req. Verified 6"]
       json [OF json_h] live_kv live_json
  show ?thesis by simp
qed

section \<open>Counter update on authentication\<close>

text \<open>
  C9. When \<open>verifyAuthentication\<close> succeeds, it has found the passkey \<open>p\<close> whose
  credential id equals the response's, the primitive has returned verified with a new
  counter on a request carrying \<open>p\<close>'s stored counter, and afterwards the passkey
  stored under \<open>p\<close>'s id has that new counter (its other credential data unchanged)
  and \<open>lastUsed\<close> set to the time of the call; the result carries \<open>p\<close>'s user id,
  username and passkey id. In the scenario the stored counter 5 becomes the reported 6.
\<close>

theorem successful_authentication_updates_counter:
  assumes "verifyAuthentication svc ap now sid cred org st = (Inr r, st')"
  shows "\<exists>p request newCounter p'.
           find (\<lambda>p. pd_credentialID (pk_data p) = c_rawId cred) (KV_getPasskeys None st) = Some p
         \<and> av_response request = cred
         \<and> au_counter (av_authenticator request) = pd_counter (pk_data p)
         \<and> ap request = Verified newCounter
         \<and> KV_getPasskeyById (pk_id p) st' = Some p'
         \<and> pd_counter (pk_data p') = newCounter
         \<and> pk_data p' = (pk_data p)\<lparr>pd_counter := newCounter\<rparr>
         \<and> pk_lastUsed p' = now
         \<and> ar_verified r
         \<and> ar_userId r = pd_userId (pk_data p)
         \<and> ar_username r = pd_username (pk_data p)
         \<and> ar_passkeyId r = pk_id p"
proof -
  from verifyAuthentication_success [OF assms] obtain s :: session and p :: passkey and eo n where
    found: "find (\<lambda>p. pd_credentialID (pk_data p) = c_rawId cred) (KV_getPasskeys None st) = Some p"
    and verified: "ap \<lparr>av_response = cred, av_expectedChallenge = cd_challenge (s_data s),
                av_expectedOrigin = eo, av_expectedRPID = rpID svc,
                av_authenticator =
                  \<lparr>au_credentialID = pd_credentialID (pk_data p),
                   au_credentialPublicKey = pd_credentialPublicKey (pk_data p),
                   au_counter = pd_counter (pk_data p),
                   au_transports = pd_transports (pk_data p)\<rparr>\<rparr> = Verified n"
    and r: "r = \<lparr>ar_verified = True, ar_userId = pd_userId (pk_data p),
                 ar_username = pd_username (pk_data p), ar_passkeyId = pk_id p,
                 ar_passkey = p\<rparr>"
    and st': "st' = KV_deleteChallenge sid
                   (snd (KV_updatePasskeyLastUsed now (pk_id p)
                      (KV_savePasskey now (pk_id p) ((pk_data p)\<lparr>pd_counter := n\<rparr>) st)))"
    by blast
  let ?request = "\<lparr>av_response = cred, av_expectedChallenge = cd_challenge (s_data s),
                av_expectedOrigin = eo, av_expectedRPID = rpID svc,
                av_authenticator =
                  \<lparr>au_credentialID = pd_credentialID (pk_data p),
                   au_credentialPublicKey = pd_credentialPublicKey (pk_data p),
                   au_counter = pd_counter (pk_data p),
                   au_transports = pd_transports (pk_data p)\<rparr>\<rparr>"
  let ?p' = "\<lparr>pk_data = (pk_data p)\<lparr>pd_counter := n\<rparr>, pk_id = pk_id p,
              pk_createdAt = now, pk_lastUsed = now\<rparr>"
  have stored: "KV_getPasskeyById (pk_id p) st' = Some ?p'"
    by (simp add: st' getPasskeyById_after_authentication)
  show ?thesis
    apply (rule exI [of _ p])
    apply (rule exI [of _ ?request])
    apply (rule exI [of _ n])
    apply (rule exI [of _ ?p'])
    using found verified stored r
    apply simp
    done
qed

theorem successful_authentication_updates_counter_witness:
  "verifyAuthentication defaultService (\<lambda>req. Verified 6) 4000 ''s2''
     exampleCredential None storeAuthBegun = (Inr exampleAuthenticationResult, storeAuthenticated)
   \<and> map_option (\<lambda>p. pd_counter (pk_data p)) (KV_getPasskeyById ''p1'' storeAuthBegun) = Some 5
   \<and> (\<exists>p'. KV_getPasskeyById ''p1'' storeAuthenticated = Some p'
          \<and> pd_counter (pk_data p') = 6 \<and> pk_lastUsed p' = 4000)
   \<and> ar_userId exampleAuthenticationResult = ''u1''
   \<and> ar_username exampleAuthenticationResult = Some ''a@b.com''
   \<and> ar_passkeyId exampleAuthenticationResult = ''p1''"
proof -
  have found: "find (\<lambda>p. pd_credentialID (pk_data p) = c_rawId exampleCredential)
                 (KV_getPasskeys None storeAuthBegun) = Some examplePasskey"
    by (simp add: example_defs kv_defs)
  have before: "map_option (\<lambda>p. pd_counter (pk_data p)) (KV_getPasskeyById ''p1'' storeAuthBegun) = Some 5"
    by (simp add: example_defs kv_defs)
  from successful_authentication_updates_counter [OF example_verifyAuthentication]
  obtain p request newCounter p' where
      "find (\<lambda>p. pd_credentialID (pk_data p) = c_rawId exampleCredential)
         (KV_getPasskeys None storeAuthBegun) = Some p"
      "(\<lambda>req. Verified (6::nat)) request = Verified newCounter"
      "KV_getPasskeyById (pk_id p) storeAuthenticated = Some p'"
      "pd_counter (pk_data p') = newCounter"
      "pk_lastUsed p' = 4000"
      "ar_userId exampleAuthenticationResult = pd_userId (pk_data p)"
      "ar_username exampleAuthenticationResult = pd_username (pk_data p)"
      "ar_passkeyId exampleAuthenticationResult = pk_id p"
    by blast
  with found have after: "\<exists>p'. KV_getPasskeyById ''p1'' storeAuthenticated = Some p'
          \<and> pd_counter (pk_data p') = 6 \<and> pk_lastUsed p' = 4000"
    and who: "ar_userId exampleAuthenticationResult = ''u1''"
      "ar_username exampleAuthenticationResult = Some ''a@b.com''"
      "ar_passkeyId exampleAuthenticationResult = ''p1''"
    by (auto simp: examplePasskey_def examplePasskeyData_def)
  from example_verifyAuthentication before after who show ?thesis by blast
qed

section \<open>A failed completion keeps its session\<close>

text \<open>
  C10. A completion call that fails after the store returned the session leaves the
  whole store as it was, so the session is still returned for the same session id and
  the call can be retried; a call that succeeds has stored the credential (the new
  passkey for a registration, the passkey with its counter and \<open>lastUsed\<close> written for
  an authentication) and the session is gone from then on.
\<close>

theorem failed_completion_keeps_session:
  "(KV_getChallenge now sid st = Some s
      \<and> verifyRegistration svc rp pid now sid cred uid org plat st = (Inl e, st')
    \<longrightarrow> st' = st \<and> KV_getChallenge now sid st' = Some s)
   \<and> (KV_getChallenge now sid st = Some s
      \<and> verifyAuthentication svc ap now sid cred org st = (Inl e, st')
    \<longrightarrow> st' = st \<and> KV_getChallenge now sid st' = Some s)
   \<and> (verifyRegistration svc rp pid now sid cred uid org plat st = (Inr r, st')
    \<longrightarrow> KV_getChallenge now' sid st' = None
        \<and> KV_getPasskeyById pid st'
            = Some \<lparr>pk_data = rr_passkey r, pk_id = pid, pk_createdAt = now, pk_lastUsed = now\<rparr>)
   \<and> (verifyAuthentication svc ap now sid cred org st = (Inr ra, st')
    \<longrightarrow> KV_getChallenge now' sid st' = None
        \<and> (\<exists>p' n. KV_getPasskeyById (ar_passkeyId ra) st' = Some p'
                 \<and> pk_data p' = (pk_data (ar_passkey ra))\<lparr>pd_counter := n\<rparr>
                 \<and> pk_lastUsed p' = now))"
proof -
  have reg_fail: "KV_getChallenge now sid st = Some s
      \<and> verifyRegistration svc rp pid now sid cred uid org plat st = (Inl e, st')
    \<longrightarrow> st' = st \<and> KV_getChallenge now sid st' = Some s"
    using verifyRegistration_failure_state [of svc rp pid now sid cred uid org plat st e st']
    by auto
  have auth_fail: "KV_getChallenge now sid st = Some s
      \<and> verifyAuthentication svc ap now sid cred org st = (Inl e, st')
    \<longrightarrow> st' = st \<and> KV_getChallenge now sid st' = Some s"
    using verifyAuthentication_failure_state [of svc ap now sid cred org st e st']
    by auto
  have reg_ok: "verifyRegistration svc rp pid now sid cred uid org plat st = (Inr r, st')
    \<longrightarrow> KV_getChallenge now' sid st' = None
        \<and> KV_getPasskeyById pid st'
            = Some \<lparr>pk_data = rr_passkey r, pk_id = pid, pk_createdAt = now, pk_lastUsed = now\<rparr>"
  proof
    assume "verifyRegistration svc rp pid now sid cred uid org plat st = (Inr r, st')"
    then obtain ud where
      "st' = KV_deleteChallenge sid (KV_saveUser now uid ud (KV_savePasskey now pid (rr_passkey r) st))"
      using verifyRegistration_success by blast
    then show "KV_getChallenge now' sid st' = None
        \<and> KV_getPasskeyById pid st'
            = Some \<lparr>pk_data = rr_passkey r, pk_id = pid, pk_createdAt = now, pk_lastUsed = now\<rparr>"
      by (simp add: getChallenge_deleteChallenge getPasskeyById_after_registration)
  qed
  have auth_ok: "verifyAuthentication svc ap now sid cred org st = (Inr ra, st')
    \<longrightarrow> KV_getChallenge now' sid st' = None
        \<and> (\<exists>p' n. KV_getPasskeyById (ar_passkeyId ra) st' = Some p'
                 \<and> pk_data p' = (pk_data (ar_passkey ra))\<lparr>pd_counter := n\<rparr>
                 \<and> pk_lastUsed p' = now)"
  proof
    assume "verifyAuthentication svc ap now sid cred org st = (Inr ra, st')"
    then obtain p n where
      ra: "ra = \<lparr>ar_verified = True, ar_userId = pd_userId (pk_data p),
                 ar_username = pd_username (pk_data p), ar_passkeyId = pk_id p,
                 ar_passkey = p\<rparr>"
      and st': "st' = KV_deleteChallenge sid
                   (snd (KV_updatePasskeyLastUsed now (pk_id p)
                      (KV_savePasskey now (pk_id p) ((pk_data p)\<lparr>pd_counter := n\<rparr>) st)))"
      using verifyAuthentication_success by blast
    have "KV_getPasskeyById (ar_passkeyId ra) st'
            = Some \<lparr>pk_data = (pk_data (ar_passkey ra))\<lparr>pd_counter := n\<rparr>,
                    pk_id = ar_passkeyId ra, pk_createdAt = now, pk_lastUsed = now\<rparr>"
      by (simp add: ra st' getPasskeyById_after_authentication)
    then have "\<exists>p' n. KV_getPasskeyById (ar_passkeyId ra) st' = Some p'
                 \<and> pk_data p' = (pk_data (ar_passkey ra))\<lparr>pd_counter := n\<rparr>
                 \<and> pk_lastUsed p' = now"
      by (intro exI [of _ "\<lparr>pk_data = (pk_data (ar_passkey ra))\<lparr>pd_counter := n\<rparr>,
                    pk_id = ar_passkeyId ra, pk_createdAt = now, pk_lastUsed = now\<rparr>"]
                exI [of _ n]) simp
    moreover have "KV_getChallenge now' sid st' = None"
      by (simp add: st' getChallenge_deleteChallenge)
    ultimately show "KV_getChallenge now' sid st' = None
        \<and> (\<exists>p' n. KV_getPasskeyById (ar_passkeyId ra) st' = Some p'
                 \<and> pk_data p' = (pk_data (ar_passkey ra))\<lparr>pd_counter := n\<rparr>
                 \<and> pk_lastUsed p' = now)"
      by blast
  qed
  from reg_fail auth_fail reg_ok auth_ok show ?thesis by blast
qed

theorem failed_completion_keeps_session_witness:
  "verifyRegistration defaultService (\<lambda>req. NotVerified) ''p1'' 2000 ''s1''
     exampleCredential ''u1'' None ''android'' storeBegun
     = (Inl RegistrationVerificationFailed, storeBegun)
   \<and> KV_getChallenge 2000 ''s1'' storeBegun = Some exampleRegistrationSession
   \<and> verifyAuthentication defaultService (\<lambda>req. NotVerified) 4000 ''s2''
       exampleCredential None storeAuthBegun
     = (Inl AuthenticationVerificationFailed, storeAuthBegun)
   \<and> KV_getChallenge 4000 ''s2'' storeAuthBegun = Some exampleAuthenticationSession
   \<and> KV_getChallenge 2000 ''s1'' storeRegistered = None
   \<and> KV_getPasskeyById ''p1'' storeRegistered = Some examplePasskey
   \<and> KV_getChallenge 4000 ''s2'' storeAuthenticated = None
   \<and> (\<exists>p' n. KV_getPasskeyById ''p1'' storeAuthenticated = Some p'
            \<and> pk_data p' = examplePasskeyData\<lparr>pd_counter := n\<rparr>
            \<and> pk_lastUsed p' = 4000)"
proof -
  note inst = failed_completion_keeps_session
  have a: "KV_getChallenge 2000 ''s1'' storeBegun = Some exampleRegistrationSession"
    using inst [where st = storeBegun and st' = storeBegun and now = 2000 and sid = "''s1''"
        and s = exampleRegistrationSession and svc = defaultService
        and rp = "\<lambda>req. NotVerified" and pid = "''p1''" and cred = exampleCredential
        and uid = "''u1''" and org = None and plat = "''android''"
        and e = RegistrationVerificationFailed]
      example_live_registration_session example_verifyRegistration_notVerified
    by simp
  have b: "KV_getChallenge 4000 ''s2'' storeAuthBegun = Some exampleAuthenticationSession"
    using inst [where st = storeAuthBegun and st' = storeAuthBegun and now = 4000
        and sid = "''s2''" and s = exampleAuthenticationSession and svc = defaultService
        and ap = "\<lambda>req. NotVerified" and cred = exampleCredential and org = None
        and e = AuthenticationVerificationFailed]
      example_live_authentication_session example_verifyAuthentication_notVerified
    by simp
  have c: "KV_getChallenge 2000 ''s1'' storeRegistered = None
         \<and> KV_getPasskeyById ''p1'' storeRegistered = Some examplePasskey"
    using inst [where st = storeBegun and st' = storeRegistered and now = 2000
        and now' = 2000 and sid = "''s1''" and svc = defaultService
        and rp = "\<lambda>req. Verified exampleInfo" and pid = "''p1''" and cred = exampleCredential
        and uid = "''u1''" and org = None and plat = "''android''"
        and r = "\<lparr>rr_verified = True, rr_passkeyId = ''p1'', rr_passkey = examplePasskeyData\<rparr>"]
      example_verifyRegistration
    by (simp add: examplePasskey_def)
  have d: "KV_getChallenge 4000 ''s2'' storeAuthenticated = None
   \<and> (\<exists>p' n. KV_getPasskeyById ''p1'' storeAuthenticated = Some p'
            \<and> pk_data p' = examplePasskeyData\<lparr>pd_counter := n\<rparr>
            \<and> pk_lastUsed p' = 4000)"
    using inst [where st = storeAuthBegun and st' = storeAuthenticated and now = 4000
        and now' = 4000 and sid = "''s2''" and svc = defaultService
        and ap = "\<lambda>req. Verified 6" and cred = exampleCredential and org = None
        and ra = exampleAuthenticationResult]
      example_verifyAuthentication
    by (simp add: exampleAuthenticationResult_def examplePasskey_def)
  from a b c d example_verifyRegistration_notVerified example_verifyAuthentication_notVerified
  show ?thesis by blast
qed

end
